theory Spec2Isabelle
  imports Complex_Main "HOL-Library.AList"
begin

section \<open>Python values and exceptions\<close>

text \<open>
  The module \<^verbatim>\<open>carla_gym/envs/carla_env.py\<close> is modelled function by function.
  Every \<^verbatim>\<open>raise\<close> (also of the interpreter: an unbound name, a missing key) is a value
  \<open>Inl e\<close> of a sum type; a normal return is \<open>Inr v\<close>.  The except clause of the
  module is \<^verbatim>\<open>except Exception\<close>, which does not catch \<^verbatim>\<open>KeyboardInterrupt\<close> or \<^verbatim>\<open>SystemExit\<close>;
  \<open>NonException\<close> stands for those.
\<close>

datatype exn =
    NameError string
  | KeyError string
  | TypeError
  | IndexError
  | AttributeError string
  | AssertionError string
  | ProcessLookupError
  | OtherException string
  | NonException string

fun is_Exception :: "exn \<Rightarrow> bool" where
  "is_Exception (NonException _) = False"
| "is_Exception _ = True"

text \<open>
  Values that a configuration dictionary or the scenario file can hold.  Floats are left
  out of the value type: the module computes with none of the values it loads, apart from
  \<^verbatim>\<open>1 * config["framestack"]\<close> and \<^verbatim>\<open>3 * config["framestack"]\<close>.
\<close>

datatype pyval =
    VNone
  | VBool bool
  | VInt int
  | VStr string
  | VList "pyval list"
  | VDict "(string \<times> pyval) list"

type_synonym pydict = "string \<rightharpoonup> pyval"

fun truthy :: "pyval \<Rightarrow> bool" where
  "truthy VNone = False"
| "truthy (VBool b) = b"
| "truthy (VInt i) = (i \<noteq> 0)"
| "truthy (VStr s) = (s \<noteq> [])"
| "truthy (VList xs) = (xs \<noteq> [])"
| "truthy (VDict kvs) = (kvs \<noteq> [])"

definition ebind :: "exn + 'a \<Rightarrow> ('a \<Rightarrow> exn + 'b) \<Rightarrow> exn + 'b" where
  "ebind r f = (case r of Inl e \<Rightarrow> Inl e | Inr v \<Rightarrow> f v)"

text \<open>\<^verbatim>\<open>d[k]\<close> on a dictionary with string keys.\<close>

definition getitem :: "pydict \<Rightarrow> string \<Rightarrow> exn + pyval" where
  "getitem d k = (case d k of None \<Rightarrow> Inl (KeyError k) | Some v \<Rightarrow> Inr v)"

text \<open>\<^verbatim>\<open>v[k]\<close> with a string \<open>k\<close>, on any value: only a dictionary accepts a string subscript.\<close>

fun subscript_str :: "pyval \<Rightarrow> string \<Rightarrow> exn + pyval" where
  "subscript_str (VDict kvs) k =
     (case map_of kvs k of None \<Rightarrow> Inl (KeyError k) | Some v \<Rightarrow> Inr v)"
| "subscript_str _ k = Inl TypeError"

text \<open>
  \<^verbatim>\<open>v[i]\<close> with an integer \<open>i\<close>: lists and strings count negative indices from the end and
  raise \<^verbatim>\<open>IndexError\<close> out of range; a dictionary loaded from JSON has string keys only, so
  an integer key is missing; the other values are not subscriptable.
\<close>

definition index_list :: "'a list \<Rightarrow> int \<Rightarrow> exn + 'a" where
  "index_list xs i =
     (if 0 \<le> i \<and> i < int (length xs) then Inr (xs ! nat i)
      else if i < 0 \<and> - i \<le> int (length xs) then Inr (xs ! nat (int (length xs) + i))
      else Inl IndexError)"

fun subscript_int :: "pyval \<Rightarrow> int \<Rightarrow> exn + pyval" where
  "subscript_int (VList xs) i = index_list xs i"
| "subscript_int (VStr s) i = ebind (index_list s i) (\<lambda>c. Inr (VStr [c]))"
| "subscript_int (VDict kvs) i = Inl (KeyError [])"
| "subscript_int _ i = Inl TypeError"

text \<open>\<^verbatim>\<open>v[k] = x\<close> with a string \<open>k\<close>: an existing key keeps its place, a new one goes last.\<close>

fun setitem_str :: "pyval \<Rightarrow> string \<Rightarrow> pyval \<Rightarrow> exn + pyval" where
  "setitem_str (VDict kvs) k x = Inr (VDict (AList.update k x kvs))"
| "setitem_str _ k x = Inl TypeError"

text \<open>\<^verbatim>\<open>"literal" + v\<close>: only a string can be added to a string.\<close>

fun str_add :: "string \<Rightarrow> pyval \<Rightarrow> exn + pyval" where
  "str_add s (VStr t) = Inr (VStr (s @ t))"
| "str_add s _ = Inl TypeError"

text \<open>
  \<^verbatim>\<open>k * v\<close> for an integer literal \<open>k\<close>: integer product (\<^verbatim>\<open>bool\<close> is a subclass of
  \<^verbatim>\<open>int\<close>), repetition of a string or a list, \<^verbatim>\<open>TypeError\<close> for \<^verbatim>\<open>None\<close> and a dictionary.
\<close>

fun int_mul :: "int \<Rightarrow> pyval \<Rightarrow> exn + pyval" where
  "int_mul k (VInt n) = Inr (VInt (k * n))"
| "int_mul k (VBool b) = Inr (VInt (k * (if b then 1 else 0)))"
| "int_mul k (VStr s) = Inr (VStr (concat (replicate (nat k) s)))"
| "int_mul k (VList xs) = Inr (VList (concat (replicate (nat k) xs)))"
| "int_mul k _ = Inl TypeError"

text \<open>\<^verbatim>\<open>s.split(sep)\<close> for a one-character separator: never empty, \<^verbatim>\<open>"".split("/") == [""]\<close>.\<close>

fun split_char :: "char \<Rightarrow> string \<Rightarrow> string list" where
  "split_char sep [] = [[]]"
| "split_char sep (c # cs) =
     (if c = sep then [] # split_char sep cs
      else (case split_char sep cs of
              [] \<Rightarrow> [[c]]
            | w # ws \<Rightarrow> (c # w) # ws))"

text \<open>\<^verbatim>\<open>v.split("/")\<close>: only a string has the method.\<close>

fun split_slash :: "pyval \<Rightarrow> exn + string list" where
  "split_slash (VStr s) = Inr (split_char (CHR ''/'') s)"
| "split_slash _ = Inl (AttributeError ''split'')"

text \<open>\<^verbatim>\<open>str(n)\<close> for an integer, as \<^verbatim>\<open>"{}".format(n)\<close> renders it.\<close>

fun nat_digits :: "nat \<Rightarrow> string" where
  "nat_digits n =
     (if n < 10 then [''0123456789'' ! n]
      else nat_digits (n div 10) @ [''0123456789'' ! (n mod 10)])"

declare nat_digits.simps [simp del]

definition str_int :: "int \<Rightarrow> string" where
  "str_int i = (if i < 0 then CHR ''-'' # nat_digits (nat (- i)) else nat_digits (nat i))"

text \<open>
  A dictionary display \<^verbatim>\<open>{k1: v1, k2: v2, ...}\<close> stores the pairs from left to right; a
  key that compares equal to an earlier one overwrites its value and adds no entry.
  \<^verbatim>\<open>len\<close> of the dictionary is the number of entries.
\<close>

definition dict_display :: "('k \<times> 'v) list \<Rightarrow> ('k \<times> 'v) list" where
  "dict_display kvs = foldl (\<lambda>d (k, v). AList.update k v d) [] kvs"

definition len :: "'a list \<Rightarrow> nat" where
  "len d = length d"

section \<open>Import of the module\<close>

text \<open>
  What the import reads from outside the module: the process environment, the file
  system, the outcome of importing the libraries (lines 7 to 17), the outcome of importing
  the bundled client package (lines 24 to 28) with the five planner command codes it
  exports, and the outcome of \<^verbatim>\<open>json.load(open(".../scenarios.json"))\<close>.  The client
  package and the scenario file belong to the repository but are not part of the
  fragment, so they are parameters here.
\<close>

record 'c planner_consts =
  REACH_GOAL :: 'c
  GO_STRAIGHT :: 'c
  TURN_RIGHT :: 'c
  TURN_LEFT :: 'c
  LANE_FOLLOW :: 'c

record 'c os_env =
  environ :: "string \<rightharpoonup> string"
  expanduser :: "string \<Rightarrow> string"
  path_exists :: "string \<Rightarrow> bool"
  lib_imports :: "exn option"
  carla_pkg :: "exn + 'c planner_consts"
  scenarios_json :: "exn + pyval"

text \<open>
  Effects that leave the interpreter.  Each one is logged together with the contents of
  \<^verbatim>\<open>live_carla_processes\<close> at the moment it happens, so that the order of an effect and
  of a registry update can be stated.  \<open>Popen argv pre out\<close> is the call of
  \<^verbatim>\<open>subprocess.Popen\<close> with its \<^verbatim>\<open>preexec_fn\<close> (\<open>Setsid\<close> for \<^verbatim>\<open>os.setsid\<close>, which makes
  the child the leader of a new session and process group) and its \<^verbatim>\<open>stdout\<close>
  (\<open>DevNull\<close> for the opened \<^verbatim>\<open>os.devnull\<close>); \<open>since w w'\<close> is what was logged between
  two worlds.
\<close>

datatype preexec = NoPreexec | Setsid

datatype redirect = Inherit | DevNull

datatype event =
    Print string
  | PrintKilling
  | PrintErrorConnecting exn nat
  | AtexitRegister string
  | Popen "pyval list" preexec redirect
  | Killpg nat
  | NewClient string "int option"
  | ClientConnect
  | Sleep nat

record world =
  live_carla_processes :: "nat set"
  trace :: "(event \<times> nat set) list"

definition emit :: "event \<Rightarrow> world \<Rightarrow> world" where
  "emit ev w = w\<lparr>trace := trace w @ [(ev, live_carla_processes w)]\<rparr>"

definition since :: "world \<Rightarrow> world \<Rightarrow> (event \<times> nat set) list" where
  "since w w' = drop (length (trace w)) (trace w')"

fun is_connection :: "event \<Rightarrow> bool" where
  "is_connection (NewClient host port) = True"
| "is_connection ClientConnect = True"
| "is_connection _ = False"

fun is_new_client :: "event \<Rightarrow> bool" where
  "is_new_client (NewClient host port) = True"
| "is_new_client _ = False"

fun is_sleep :: "event \<Rightarrow> bool" where
  "is_sleep (Sleep d) = (d = 2)"
| "is_sleep _ = False"

text \<open>
  The module object after a successful import.  \<open>RETRIES_ON_ERROR\<close> is the binding of
  that global name: \<open>None\<close> when the name is unbound.  No statement of the module binds
  it, so the import leaves it unbound.
\<close>

record 'c module =
  SERVER_BINARY :: string
  COMMANDS_ENUM :: "('c \<times> string) list"
  COMMAND_ORDINAL :: "(string \<times> nat) list"
  scenario_config :: pyval
  module_city :: pyval
  weathers :: pyval
  ENV_CONFIG :: pydict
  RETRIES_ON_ERROR :: "pyval option"

definition server_binary_path :: "'c os_env \<Rightarrow> string" where
  "server_binary_path os =
     (case environ os ''CARLA_SERVER'' of
        Some p \<Rightarrow> p
      | None \<Rightarrow> expanduser os ''~/software/CARLA_0.8.2/CarlaUE4.sh'')"

definition assert_msg :: string where
  "assert_msg = ''CARLA_SERVER environment variable is not set properly. Please check and retry''"

definition commands_enum :: "'c planner_consts \<Rightarrow> ('c \<times> string) list" where
  "commands_enum pc = dict_display
     [(REACH_GOAL pc, ''REACH_GOAL''),
      (GO_STRAIGHT pc, ''GO_STRAIGHT''),
      (TURN_RIGHT pc, ''TURN_RIGHT''),
      (TURN_LEFT pc, ''TURN_LEFT''),
      (LANE_FOLLOW pc, ''LANE_FOLLOW'')]"

definition command_ordinal :: "(string \<times> nat) list" where
  "command_ordinal = dict_display
     [(''REACH_GOAL'', 0),
      (''GO_STRAIGHT'', 1),
      (''TURN_RIGHT'', 2),
      (''TURN_LEFT'', 3),
      (''LANE_FOLLOW'', 4)]"

definition env_config :: "pyval \<Rightarrow> pyval \<Rightarrow> pydict" where
  "env_config server_map scenario = map_of
     [(''enable_planner'', VBool True),
      (''use_depth_camera'', VBool False),
      (''discrete_actions'', VBool True),
      (''server_map'', server_map),
      (''scenarios'', VList [scenario]),
      (''framestack'', VInt 2),
      (''early_terminate_on_collision'', VBool True),
      (''verbose'', VBool False),
      (''render_x_res'', VInt 800),
      (''render_y_res'', VInt 600),
      (''x_res'', VInt 80),
      (''y_res'', VInt 80),
      (''seed'', VInt 1)]"

text \<open>Lines 48 to 70: the scenario file is read and the default configuration built.\<close>

definition load_config :: "string \<Rightarrow> 'c planner_consts \<Rightarrow> pyval \<Rightarrow> exn + 'c module" where
  "load_config bin pc sc0 =
     ebind (subscript_str sc0 ''city'') (\<lambda>cities.
     ebind (subscript_int cities 1) (\<lambda>cty.
     ebind (subscript_str sc0 ''Weather'') (\<lambda>w1.
     ebind (subscript_str w1 ''WetNoon'') (\<lambda>wet.
     ebind (subscript_str sc0 ''Weather'') (\<lambda>w2.
     ebind (subscript_str w2 ''ClearSunset'') (\<lambda>clear.
     ebind (setitem_str sc0 ''Weather_distribution'' (VList [wet, clear])) (\<lambda>sc.
     ebind (str_add ''/Game/Maps/'' cty) (\<lambda>server_map.
     ebind (subscript_str sc ''Lane_Keep_Town2'') (\<lambda>scenario.
       Inr \<lparr>SERVER_BINARY = bin,
            COMMANDS_ENUM = commands_enum pc,
            COMMAND_ORDINAL = command_ordinal,
            scenario_config = sc,
            module_city = cty,
            weathers = VList [wet, clear],
            ENV_CONFIG = env_config server_map scenario,
            RETRIES_ON_ERROR = None\<rparr>)))))))))"

text \<open>
  The import, top to bottom: the library imports, \<^verbatim>\<open>SERVER_BINARY\<close> and its
  \<^verbatim>\<open>assert\<close> (lines 20 to 22), the client package, the scenario file and the default
  configuration, the empty registry (line 72) and the registration of \<^verbatim>\<open>cleanup\<close> with
  \<^verbatim>\<open>atexit\<close> (line 77).  The \<^verbatim>\<open>assert\<close> is modelled as executed, which is the interpreter's
  behaviour unless it is started with \<^verbatim>\<open>-O\<close>.
\<close>

definition fresh_world :: world where
  "fresh_world = \<lparr>live_carla_processes = {}, trace = []\<rparr>"

definition import_module :: "'c os_env \<Rightarrow> (exn + 'c module) \<times> world" where
  "import_module os =
     (case lib_imports os of
        Some e \<Rightarrow> (Inl e, fresh_world)
      | None \<Rightarrow>
          let bin = server_binary_path os in
          if \<not> path_exists os bin then (Inl (AssertionError assert_msg), fresh_world)
          else (case carla_pkg os of
                  Inl e \<Rightarrow> (Inl e, fresh_world)
                | Inr pc \<Rightarrow>
                    (case scenarios_json os of
                       Inl e \<Rightarrow> (Inl e, fresh_world)
                     | Inr sc0 \<Rightarrow>
                         (case load_config bin pc sc0 of
                            Inl e \<Rightarrow> (Inl e, fresh_world)
                          | Inr m \<Rightarrow> (Inr m, emit (AtexitRegister ''cleanup'') fresh_world)))))"

section \<open>The environment class\<close>

text \<open>
  Space descriptors of \<^verbatim>\<open>gym.spaces\<close>.  The constructors record their arguments; the
  checks that gym itself makes on them are outside the module.
\<close>

datatype dtype = Float32

datatype space =
    Box real real "pyval list" dtype
  | Discrete nat
  | Tuple "space list"

text \<open>
  The attributes that \<^verbatim>\<open>__init__\<close> sets.  \<open>planner\<close> is \<open>None\<close> when the attribute is
  never assigned (planner disabled); \<open>seed\<close> is the attribute \<^verbatim>\<open>_seed\<close>, \<open>spec_id\<close> is
  \<^verbatim>\<open>_spec.id\<close>; \<open>server_process\<close> holds the pid of the \<^verbatim>\<open>Popen\<close> object.  The attributes
  from \<open>prev_measurement\<close> on are only ever \<^verbatim>\<open>None\<close> in the fragment.
\<close>

record ('p, 'cl) carla_env =
  config :: pydict
  city :: string
  planner :: "'p option"
  observation_space :: space
  spec_id :: string
  seed :: pyval
  server_port :: "int option"
  server_process :: "nat option"
  client :: "'cl option"
  num_steps :: int
  total_reward :: int
  prev_measurement :: pyval
  prev_image :: pyval
  episode_id :: pyval
  measurements_file :: pyval
  weather :: pyval
  scenario :: pyval
  start_pos :: pyval
  end_pos :: pyval
  start_coord :: pyval
  end_coord :: pyval
  last_obs :: pyval

text \<open>
  \<^verbatim>\<open>CarlaEnv.__init__\<close> (lines 81 to 126).  \<open>Planner\<close> is the constructor of the bundled
  planner class, a parameter: it returns a planner or raises.  The constructor of the
  environment touches neither the registry nor the outside, so the world it returns is
  the one it was given.
\<close>

definition CarlaEnv_init ::
  "'c module \<Rightarrow> (string \<Rightarrow> exn + 'p) \<Rightarrow> pydict \<Rightarrow> world \<Rightarrow> (exn + ('p, 'cl) carla_env) \<times> world" where
  "CarlaEnv_init m Planner cfg w =
    (ebind (getitem cfg ''server_map'') (\<lambda>smap.
     ebind (split_slash smap) (\<lambda>parts.
     ebind (index_list parts (- 1)) (\<lambda>cty.
     ebind (getitem cfg ''enable_planner'') (\<lambda>ep.
     ebind (if truthy ep then ebind (Planner cty) (\<lambda>p. Inr (Some p)) else Inr None) (\<lambda>pl.
     ebind (getitem cfg ''use_depth_camera'') (\<lambda>depth.
     ebind (if truthy depth then
              ebind (getitem cfg ''y_res'') (\<lambda>y.
              ebind (getitem cfg ''x_res'') (\<lambda>x.
              ebind (getitem cfg ''framestack'') (\<lambda>f.
              ebind (int_mul 1 f) (\<lambda>ch.
                Inr (Box (- 1) 1 [y, x, ch] Float32)))))
            else
              ebind (getitem cfg ''y_res'') (\<lambda>y.
              ebind (getitem cfg ''x_res'') (\<lambda>x.
              ebind (getitem cfg ''framestack'') (\<lambda>f.
              ebind (int_mul 3 f) (\<lambda>ch.
                Inr (Box 0 255 [y, x, ch] Float32)))))) (\<lambda>image_space.
     ebind (getitem (ENV_CONFIG m) ''seed'') (\<lambda>sd.
       Inr \<lparr>config = cfg,
            city = cty,
            planner = pl,
            observation_space =
              Tuple [image_space,
                     Discrete (len (COMMANDS_ENUM m)),
                     Box (- 128) 128 [VInt 2] Float32],
            spec_id = ''Carla-v0'',
            seed = sd,
            server_port = None,
            server_process = None,
            client = None,
            num_steps = 0,
            total_reward = 0,
            prev_measurement = VNone,
            prev_image = VNone,
            episode_id = VNone,
            measurements_file = VNone,
            weather = VNone,
            scenario = VNone,
            start_pos = VNone,
            end_pos = VNone,
            start_coord = VNone,
            end_coord = VNone,
            last_obs = VNone\<rparr>)))))))),
     w)"

text \<open>The image component of the observation space: the first member of the tuple.\<close>

fun image_space :: "space \<Rightarrow> space option" where
  "image_space (Tuple (s # _)) = Some s"
| "image_space _ = None"

fun box_shape :: "space \<Rightarrow> pyval list option" where
  "box_shape (Box lo hi shape dt) = Some shape"
| "box_shape _ = None"

section \<open>Spawning the server and connecting\<close>

text \<open>
  What \<^verbatim>\<open>init_server\<close> gets from outside: the draw of the random generator, the
  outcome of \<^verbatim>\<open>open(os.devnull, "w")\<close>, of \<^verbatim>\<open>subprocess.Popen\<close> (the pid of the child) and
  of \<^verbatim>\<open>os.getpgid\<close>, and for the attempt with loop index \<open>i\<close> the outcome of the client's
  constructor and of its \<^verbatim>\<open>connect\<close> method.  The client class is bundled code outside
  the fragment.
\<close>

record ('cl, 'r) ext =
  rand_raw :: nat
  open_devnull :: "exn option"
  popen_result :: "exn + nat"
  getpgid :: "nat \<Rightarrow> exn + nat"
  new_client :: "nat \<Rightarrow> exn + 'cl"
  client_connect :: "nat \<Rightarrow> 'cl \<Rightarrow> exn + 'r"

text \<open>\<^verbatim>\<open>random.randint(a, b)\<close>: an integer \<open>N\<close> with \<open>a \<le> N \<le> b\<close>, chosen by the draw.\<close>

definition randint :: "int \<Rightarrow> int \<Rightarrow> nat \<Rightarrow> int" where
  "randint a b raw = a + int (raw mod nat (b - a + 1))"

text \<open>
  \<^verbatim>\<open>range(v)\<close>: the number of iterations.  A negative bound gives none; \<^verbatim>\<open>bool\<close> counts
  as an integer; anything else raises \<^verbatim>\<open>TypeError\<close>.
\<close>

fun py_range :: "pyval \<Rightarrow> exn + nat" where
  "py_range (VInt n) = Inr (nat n)"
| "py_range (VBool b) = Inr (if b then 1 else 0)"
| "py_range _ = Inl TypeError"

text \<open>The body of the \<^verbatim>\<open>try\<close> (lines 142 and 143) for loop index \<open>i\<close>.\<close>

definition attempt ::
  "('cl, 'r) ext \<Rightarrow> nat \<Rightarrow> ('p, 'cl) carla_env \<Rightarrow> world \<Rightarrow> (exn + 'r) \<times> ('p, 'cl) carla_env \<times> world" where
  "attempt x i e w =
     (let w1 = emit (NewClient ''localhost'' (server_port e)) w in
      case new_client x i of
        Inl ex \<Rightarrow> (Inl ex, e, w1)
      | Inr c \<Rightarrow>
          let e1 = e\<lparr>client := Some c\<rparr>; w2 = emit ClientConnect w1 in
          (case client_connect x i c of
             Inl ex \<Rightarrow> (Inl ex, e1, w2)
           | Inr r \<Rightarrow> (Inr r, e1, w2)))"

text \<open>
  The \<^verbatim>\<open>for\<close> loop (lines 140 to 146) over the indices still to come.  The result
  \<open>Inr (Some r)\<close> is \<^verbatim>\<open>return self.client.connect()\<close> with \<open>r\<close> the value of the call;
  \<open>Inr None\<close> is the end of the function body reached after the loop, where Python
  returns \<^verbatim>\<open>None\<close>; \<open>Inl ex\<close> is an exception that \<^verbatim>\<open>except Exception\<close> does not catch.
\<close>

fun retry_loop ::
  "('cl, 'r) ext \<Rightarrow> nat list \<Rightarrow> ('p, 'cl) carla_env \<Rightarrow> world
     \<Rightarrow> (exn + 'r option) \<times> ('p, 'cl) carla_env \<times> world" where
  "retry_loop x [] e w = (Inr None, e, w)"
| "retry_loop x (i # rest) e w =
     (case attempt x i e w of
        (Inr r, e1, w1) \<Rightarrow> (Inr (Some r), e1, w1)
      | (Inl ex, e1, w1) \<Rightarrow>
          if is_Exception ex
          then retry_loop x rest e1 (emit (Sleep 2) (emit (PrintErrorConnecting ex i) w1))
          else (Inl ex, e1, w1))"

text \<open>\<^verbatim>\<open>CarlaEnv.init_server\<close> (lines 128 to 146).\<close>

definition launch_argv :: "string \<Rightarrow> pyval \<Rightarrow> int \<Rightarrow> pyval list" where
  "launch_argv bin smap port =
     [VStr bin, smap,
      VStr ''-windowed'', VStr ''-ResX=400'', VStr ''-ResY=300'',
      VStr ''-carla-server'',
      VStr (''-carla-world-port='' @ str_int port)]"

definition init_server ::
  "'c module \<Rightarrow> ('cl, 'r) ext \<Rightarrow> ('p, 'cl) carla_env \<Rightarrow> world
     \<Rightarrow> (exn + 'r option) \<times> ('p, 'cl) carla_env \<times> world" where
  "init_server m x e w =
     (let w1 = emit (Print ''Initializing new Carla server...'') w;
          port = randint 10000 60000 (rand_raw x);
          e1 = e\<lparr>server_port := Some port\<rparr>
      in case getitem (config e1) ''server_map'' of
           Inl ex \<Rightarrow> (Inl ex, e1, w1)
         | Inr smap \<Rightarrow>
            (case open_devnull x of
               Some ex \<Rightarrow> (Inl ex, e1, w1)
             | None \<Rightarrow>
                let w2 = emit (Popen (launch_argv (SERVER_BINARY m) smap port) Setsid DevNull) w1
                in (case popen_result x of
                      Inl ex \<Rightarrow> (Inl ex, e1, w2)
                    | Inr pid \<Rightarrow>
                       let e2 = e1\<lparr>server_process := Some pid\<rparr>
                       in (case getpgid x pid of
                             Inl ex \<Rightarrow> (Inl ex, e2, w2)
                           | Inr pgid \<Rightarrow>
                              let w3 = w2\<lparr>live_carla_processes :=
                                            insert pgid (live_carla_processes w2)\<rparr>
                              in (case RETRIES_ON_ERROR m of
                                    None \<Rightarrow> (Inl (NameError ''RETRIES_ON_ERROR''), e2, w3)
                                  | Some v \<Rightarrow>
                                     (case py_range v of
                                        Inl ex \<Rightarrow> (Inl ex, e2, w3)
                                      | Inr n \<Rightarrow> retry_loop x [0..<n] e2 w3))))))"

section \<open>Cleanup at exit\<close>

text \<open>
  \<^verbatim>\<open>cleanup\<close> (lines 73 to 76).  \<open>killpg pgid\<close> is the outcome of
  \<^verbatim>\<open>os.killpg(pgid, signal.SIGKILL)\<close>: \<open>None\<close> when the call returns, \<open>Some ex\<close> when it
  raises.  \<open>order\<close> is the order in which the iterator of the Python set yields the
  registry: some enumeration of it without repetition.  The call of \<^verbatim>\<open>os.killpg\<close> is
  logged whether it raises or not.
\<close>

fun kill_each :: "(nat \<Rightarrow> exn option) \<Rightarrow> nat list \<Rightarrow> world \<Rightarrow> (exn + unit) \<times> world" where
  "kill_each killpg [] w = (Inr (), w)"
| "kill_each killpg (pgid # rest) w =
     (let w1 = emit (Killpg pgid) w in
      case killpg pgid of
        Some ex \<Rightarrow> (Inl ex, w1)
      | None \<Rightarrow> kill_each killpg rest w1)"

definition cleanup :: "(nat \<Rightarrow> exn option) \<Rightarrow> nat list \<Rightarrow> world \<Rightarrow> (exn + unit) \<times> world" where
  "cleanup killpg order w = kill_each killpg order (emit PrintKilling w)"

definition iteration_order :: "nat list \<Rightarrow> world \<Rightarrow> bool" where
  "iteration_order order w \<longleftrightarrow> distinct order \<and> set order = live_carla_processes w"

text \<open>
  The outcome of the attempt with index \<open>i\<close>, read off the oracle: the exception of the
  constructor or of \<^verbatim>\<open>connect\<close>, or the client with the value \<^verbatim>\<open>connect\<close> returned.
\<close>

definition attempt_outcome :: "('cl, 'r) ext \<Rightarrow> nat \<Rightarrow> exn + 'cl \<times> 'r" where
  "attempt_outcome x i =
     (case new_client x i of
        Inl ex \<Rightarrow> Inl ex
      | Inr c \<Rightarrow> (case client_connect x i c of Inl ex \<Rightarrow> Inl ex | Inr r \<Rightarrow> Inr (c, r)))"

definition caught :: "('cl, 'r) ext \<Rightarrow> nat \<Rightarrow> bool" where
  "caught x i = (case attempt_outcome x i of Inl ex \<Rightarrow> is_Exception ex | Inr cr \<Rightarrow> False)"

definition attempts :: "(event \<times> nat set) list \<Rightarrow> nat" where
  "attempts t = length (filter (\<lambda>entry. is_new_client (fst entry)) t)"

definition sleeps :: "(event \<times> nat set) list \<Rightarrow> nat" where
  "sleeps t = length (filter (\<lambda>entry. is_sleep (fst entry)) t)"

text \<open>
  What the attempt with index \<open>i\<close> logs in a registry \<open>L\<close>: the construction of the
  client for the stored port and, when the constructor returned, the call of
  \<^verbatim>\<open>connect\<close>.  \<open>caught_log\<close> is the whole pass through the loop body for an attempt that
  raised: the attempt, then the message of the handler with the exception and the index,
  then the sleep of 2 seconds.
\<close>

definition attempt_log ::
  "('cl, 'r) ext \<Rightarrow> int option \<Rightarrow> nat set \<Rightarrow> nat \<Rightarrow> (event \<times> nat set) list" where
  "attempt_log x port L i =
     (NewClient ''localhost'' port, L)
     # (case new_client x i of Inl ex \<Rightarrow> [] | Inr c \<Rightarrow> [(ClientConnect, L)])"

definition caught_log ::
  "('cl, 'r) ext \<Rightarrow> int option \<Rightarrow> nat set \<Rightarrow> nat \<Rightarrow> (event \<times> nat set) list" where
  "caught_log x port L i =
     attempt_log x port L i
     @ (case attempt_outcome x i of
          Inl ex \<Rightarrow> [(PrintErrorConnecting ex i, L), (Sleep 2, L)]
        | Inr cr \<Rightarrow> [])"

section \<open>Concrete inputs\<close>

text \<open>
  A host on which the import succeeds: the launcher script exists, the planner exports
  five different command codes, and the scenario file has the entries the import reads.
\<close>

definition example_consts :: "int planner_consts" where
  "example_consts =
     \<lparr>REACH_GOAL = 0, GO_STRAIGHT = 5, TURN_RIGHT = 4, TURN_LEFT = 3, LANE_FOLLOW = 2\<rparr>"

definition example_scenarios :: pyval where
  "example_scenarios = VDict
     [(''city'', VList [VStr ''Town01'', VStr ''Town02'']),
      (''Weather'', VDict [(''WetNoon'', VInt 3), (''ClearSunset'', VInt 8)]),
      (''Lane_Keep_Town2'', VDict [(''city'', VStr ''Town02''), (''max_steps'', VInt 2000)])]"

definition example_os :: "int os_env" where
  "example_os =
     \<lparr>environ = [''CARLA_SERVER'' \<mapsto> ''/opt/carla/CarlaUE4.sh''],
      expanduser = (\<lambda>p. ''/home/user'' @ drop 1 p),
      path_exists = (\<lambda>p. p = ''/opt/carla/CarlaUE4.sh''),
      lib_imports = None,
      carla_pkg = Inr example_consts,
      scenarios_json = Inr example_scenarios\<rparr>"

text \<open>The same host without the launcher script.\<close>

definition example_os_no_binary :: "int os_env" where
  "example_os_no_binary = example_os\<lparr>path_exists := (\<lambda>p. False)\<rparr>"

definition example_module :: "int module" where
  "example_module =
     \<lparr>SERVER_BINARY = ''/opt/carla/CarlaUE4.sh'',
      COMMANDS_ENUM = commands_enum example_consts,
      COMMAND_ORDINAL = command_ordinal,
      scenario_config = VDict
        [(''city'', VList [VStr ''Town01'', VStr ''Town02'']),
         (''Weather'', VDict [(''WetNoon'', VInt 3), (''ClearSunset'', VInt 8)]),
         (''Lane_Keep_Town2'', VDict [(''city'', VStr ''Town02''), (''max_steps'', VInt 2000)]),
         (''Weather_distribution'', VList [VInt 3, VInt 8])],
      module_city = VStr ''Town02'',
      weathers = VList [VInt 3, VInt 8],
      ENV_CONFIG = env_config (VStr ''/Game/Maps/Town02'')
        (VDict [(''city'', VStr ''Town02''), (''max_steps'', VInt 2000)]),
      RETRIES_ON_ERROR = None\<rparr>"

definition example_world :: world where
  "example_world = emit (AtexitRegister ''cleanup'') fresh_world"

text \<open>A planner constructor that accepts every city, and two configurations.\<close>

definition example_Planner :: "string \<Rightarrow> exn + string" where
  "example_Planner cty = Inr cty"

definition example_config :: pydict where
  "example_config = ENV_CONFIG example_module"

definition example_depth_config :: pydict where
  "example_depth_config = example_config(''use_depth_camera'' \<mapsto> VBool True)"

definition example_seed_config :: pydict where
  "example_seed_config = example_config(''seed'' \<mapsto> VInt 7)"

definition example_env :: "(string, nat) carla_env" where
  "example_env =
     \<lparr>config = example_config,
      city = ''Town02'',
      planner = Some ''Town02'',
      observation_space =
        Tuple [Box 0 255 [VInt 80, VInt 80, VInt 6] Float32,
               Discrete 5,
               Box (- 128) 128 [VInt 2] Float32],
      spec_id = ''Carla-v0'',
      seed = VInt 1,
      server_port = None,
      server_process = None,
      client = None,
      num_steps = 0,
      total_reward = 0,
      prev_measurement = VNone,
      prev_image = VNone,
      episode_id = VNone,
      measurements_file = VNone,
      weather = VNone,
      scenario = VNone,
      start_pos = VNone,
      end_pos = VNone,
      start_coord = VNone,
      end_coord = VNone,
      last_obs = VNone\<rparr>"

text \<open>
  A run of \<^verbatim>\<open>init_server\<close>: the child gets pid 4242 and leads its own group; the
  client's \<^verbatim>\<open>connect\<close> is refused at the attempts 0 and 1 and succeeds from attempt 2 on.
  In \<open>refusing_ext\<close> it is refused at every attempt.
\<close>

definition example_ext :: "(nat, string) ext" where
  "example_ext =
     \<lparr>rand_raw = 12345,
      open_devnull = None,
      popen_result = Inr 4242,
      getpgid = (\<lambda>pid. Inr pid),
      new_client = (\<lambda>i. Inr i),
      client_connect =
        (\<lambda>i c. if i < 2 then Inl (OtherException ''refused'') else Inr ''connected'')\<rparr>"

definition refusing_ext :: "(nat, string) ext" where
  "refusing_ext = example_ext\<lparr>client_connect := (\<lambda>i c. Inl (OtherException ''refused''))\<rparr>"

text \<open>The module with the retry bound bound from outside, as a caller could do.\<close>

definition example_module_retries :: "int \<Rightarrow> int module" where
  "example_module_retries n = example_module\<lparr>RETRIES_ON_ERROR := Some (VInt n)\<rparr>"

text \<open>
  A registry with the groups 5 and 7, and two outcomes of \<^verbatim>\<open>os.killpg\<close>: every group
  alive, and group 5 gone already.
\<close>

definition example_registry :: world where
  "example_registry = \<lparr>live_carla_processes = {5, 7}, trace = []\<rparr>"

definition all_alive :: "nat \<Rightarrow> exn option" where
  "all_alive pgid = None"

definition group5_gone :: "nat \<Rightarrow> exn option" where
  "group5_gone pgid = (if pgid = 5 then Some ProcessLookupError else None)"


section \<open>Basic facts\<close>

lemma ebind_simps [simp]:
  "ebind (Inl e) f = Inl e"
  "ebind (Inr v) f = f v"
  by (simp_all add: ebind_def)

lemma ebind_eq_Inr: "ebind r f = Inr y \<longleftrightarrow> (\<exists>v. r = Inr v \<and> f v = Inr y)"
  by (cases r) simp_all

lemma live_emit [simp]: "live_carla_processes (emit ev w) = live_carla_processes w"
  by (simp add: emit_def)

lemma trace_emit [simp]: "trace (emit ev w) = trace w @ [(ev, live_carla_processes w)]"
  by (simp add: emit_def)

lemma since_append: "trace w' = trace w @ t \<Longrightarrow> since w w' = t"
  by (simp add: since_def)

lemma since_self [simp]: "since w w = []"
  by (simp add: since_def)

lemma attempts_simps [simp]:
  "attempts [] = 0"
  "attempts (t @ u) = attempts t + attempts u"
  "attempts ((ev, reg) # t) = (if is_new_client ev then 1 else 0) + attempts t"
  by (simp_all add: attempts_def)

lemma sleeps_simps [simp]:
  "sleeps [] = 0"
  "sleeps (t @ u) = sleeps t + sleeps u"
  "sleeps ((ev, reg) # t) = (if is_sleep ev then 1 else 0) + sleeps t"
  by (simp_all add: sleeps_def)

text \<open>One attempt: what it returns, what it changes and what it logs.\<close>

lemma attempt_effect:
  assumes "attempt x i e w = (r, e1, w1)"
  shows "live_carla_processes w1 = live_carla_processes w"
    and "server_port e1 = server_port e"
    and "server_process e1 = server_process e"
    and "config e1 = config e"
    and "\<exists>t. trace w1 = trace w @ t
            \<and> (\<forall>entry\<in>set t. snd entry = live_carla_processes w
                   \<and> (\<forall>argv pre out. fst entry \<noteq> Popen argv pre out))
            \<and> attempts t = 1 \<and> sleeps t = 0"
    and "case attempt_outcome x i of
           Inl ex \<Rightarrow> r = Inl ex
         | Inr (c, v) \<Rightarrow> r = Inr v \<and> client e1 = Some c"
  using assms
  by (auto simp: attempt_def attempt_outcome_def Let_def split: sum.splits)

lemma retry_loop_frame:
  assumes "retry_loop x idxs e w = (r, e', w')"
  shows "live_carla_processes w' = live_carla_processes w
       \<and> server_port e' = server_port e
       \<and> server_process e' = server_process e
       \<and> config e' = config e
       \<and> (\<exists>t. trace w' = trace w @ t
              \<and> (\<forall>entry\<in>set t. snd entry = live_carla_processes w
                     \<and> (\<forall>argv pre out. fst entry \<noteq> Popen argv pre out))
              \<and> attempts t \<le> length idxs)"
  using assms
proof (induction idxs arbitrary: e w)
  case Nil
  then show ?case by simp
next
  case (Cons i rest)
  obtain r1 e1 w1 where a: "attempt x i e w = (r1, e1, w1)"
    by (cases "attempt x i e w") auto
  note eff = attempt_effect [OF a]
  from eff(5) obtain t1 where t1: "trace w1 = trace w @ t1"
    "\<forall>entry\<in>set t1. snd entry = live_carla_processes w
        \<and> (\<forall>argv pre out. fst entry \<noteq> Popen argv pre out)" "attempts t1 = 1"
    by blast
  show ?case
  proof (cases r1)
    case (Inr v)
    with Cons.prems a eff t1 show ?thesis by auto
  next
    case (Inl ex)
    show ?thesis
    proof (cases "is_Exception ex")
      case False
      with Inl Cons.prems a eff t1 show ?thesis by auto
    next
      case True
      let ?w2 = "emit (Sleep 2) (emit (PrintErrorConnecting ex i) w1)"
      from True Inl Cons.prems a have rl: "retry_loop x rest e1 ?w2 = (r, e', w')"
        by simp
      from Cons.IH [OF rl] obtain t2 where t2:
        "live_carla_processes w' = live_carla_processes w1"
        "server_port e' = server_port e1" "server_process e' = server_process e1"
        "config e' = config e1"
        "trace w' = trace ?w2 @ t2"
        "\<forall>entry\<in>set t2. snd entry = live_carla_processes w1
            \<and> (\<forall>argv pre out. fst entry \<noteq> Popen argv pre out)"
        "attempts t2 \<le> length rest"
        by auto
      let ?t = "t1 @ [(PrintErrorConnecting ex i, live_carla_processes w1),
                      (Sleep 2, live_carla_processes w1)] @ t2"
      have "trace w' = trace w @ ?t" using t1 t2 by simp
      moreover have "\<forall>entry\<in>set ?t. snd entry = live_carla_processes w
          \<and> (\<forall>argv pre out. fst entry \<noteq> Popen argv pre out)"
        using t1 t2 eff(1) by auto
      moreover have "attempts ?t \<le> length (i # rest)" using t1 t2 by simp
      ultimately show ?thesis using t2 eff by (intro conjI exI [of _ ?t]) simp_all
    qed
  qed
qed

lemma retry_loop_all_caught:
  assumes "\<forall>i\<in>set idxs. caught x i"
  shows "\<exists>e' w' t. retry_loop x idxs e w = (Inr None, e', w')
           \<and> trace w' = trace w @ t \<and> attempts t = length idxs \<and> sleeps t = length idxs"
  using assms
proof (induction idxs arbitrary: e w)
  case Nil
  then show ?case by simp
next
  case (Cons i rest)
  obtain r1 e1 w1 where a: "attempt x i e w = (r1, e1, w1)"
    by (cases "attempt x i e w") auto
  note eff = attempt_effect [OF a]
  from Cons.prems have "caught x i" by simp
  with eff(6) obtain ex where ex: "r1 = Inl ex" "is_Exception ex"
    by (auto simp: caught_def split: sum.splits)
  from eff(5) obtain t1 where t1: "trace w1 = trace w @ t1" "attempts t1 = 1" "sleeps t1 = 0"
    by blast
  let ?w2 = "emit (Sleep 2) (emit (PrintErrorConnecting ex i) w1)"
  from Cons.prems have "\<forall>i\<in>set rest. caught x i" by simp
  from Cons.IH [OF this, of e1 ?w2] obtain e' w' t2 where t2:
    "retry_loop x rest e1 ?w2 = (Inr None, e', w')" "trace w' = trace ?w2 @ t2"
    "attempts t2 = length rest" "sleeps t2 = length rest"
    by blast
  let ?t = "t1 @ [(PrintErrorConnecting ex i, live_carla_processes w1),
                  (Sleep 2, live_carla_processes w1)] @ t2"
  have "retry_loop x (i # rest) e w = (Inr None, e', w')" using a ex t2 by simp
  moreover have "trace w' = trace w @ ?t" using t1 t2 by simp
  moreover have "attempts ?t = length (i # rest)" "sleeps ?t = length (i # rest)"
    using t1 t2 by simp_all
  ultimately show ?case by blast
qed

lemma retry_loop_stops:
  assumes "\<forall>i\<in>set pre. caught x i" and "\<not> caught x k"
  shows "\<exists>e' w' t. retry_loop x (pre @ k # post) e w =
             ((case attempt_outcome x k of Inl ex \<Rightarrow> Inl ex | Inr (c, v) \<Rightarrow> Inr (Some v)), e', w')
           \<and> (case attempt_outcome x k of Inl ex \<Rightarrow> True | Inr (c, v) \<Rightarrow> client e' = Some c)
           \<and> trace w' = trace w @ t \<and> attempts t = length pre + 1 \<and> sleeps t = length pre"
  using assms
proof (induction pre arbitrary: e w)
  case Nil
  obtain r1 e1 w1 where a: "attempt x k e w = (r1, e1, w1)"
    by (cases "attempt x k e w") auto
  note eff = attempt_effect [OF a]
  from eff(5) obtain t1 where t1: "trace w1 = trace w @ t1" "attempts t1 = 1" "sleeps t1 = 0"
    by blast
  from Nil.prems eff(6) a t1 show ?case
    by (auto simp: caught_def split: sum.splits)
next
  case (Cons i rest)
  obtain r1 e1 w1 where a: "attempt x i e w = (r1, e1, w1)"
    by (cases "attempt x i e w") auto
  note eff = attempt_effect [OF a]
  from Cons.prems have "caught x i" by simp
  with eff(6) obtain ex where ex: "r1 = Inl ex" "is_Exception ex"
    by (auto simp: caught_def split: sum.splits)
  from eff(5) obtain t1 where t1: "trace w1 = trace w @ t1" "attempts t1 = 1" "sleeps t1 = 0"
    by blast
  let ?w2 = "emit (Sleep 2) (emit (PrintErrorConnecting ex i) w1)"
  let ?res = "case attempt_outcome x k of Inl ex \<Rightarrow> Inl ex | Inr (c, v) \<Rightarrow> Inr (Some v)"
  from Cons.prems have "\<forall>i\<in>set rest. caught x i" "\<not> caught x k" by simp_all
  from Cons.IH [OF this, of e1 ?w2] obtain e' w' t2 where t2:
    "retry_loop x (rest @ k # post) e1 ?w2 = (?res, e', w')"
    "case attempt_outcome x k of Inl ex \<Rightarrow> True | Inr (c, v) \<Rightarrow> client e' = Some c"
    "trace w' = trace ?w2 @ t2"
    "attempts t2 = length rest + 1" "sleeps t2 = length rest"
    by blast
  let ?t = "t1 @ [(PrintErrorConnecting ex i, live_carla_processes w1),
                  (Sleep 2, live_carla_processes w1)] @ t2"
  have "retry_loop x ((i # rest) @ k # post) e w = (?res, e', w')" using a ex t2 by simp
  moreover have "trace w' = trace w @ ?t" using t1 t2 by simp
  moreover have "attempts ?t = length (i # rest) + 1" "sleeps ?t = length (i # rest)"
    using t1 t2 by simp_all
  ultimately show ?case using t2(2) by blast
qed


lemma randint_range: "10000 \<le> randint 10000 60000 raw \<and> randint 10000 60000 raw \<le> 60000"
proof -
  have "raw mod 50001 < 50001" by simp
  then show ?thesis by (simp add: randint_def)
qed

lemma randint_onto:
  assumes "10000 \<le> p" and "p \<le> 60000"
  shows "randint 10000 60000 (nat (p - 10000)) = p"
  using assms by (simp add: randint_def)

text \<open>\<^verbatim>\<open>init_server\<close> up to the loop, when the spawn and the registration go through.\<close>

lemma init_server_spawned:
  assumes "config e ''server_map'' = Some smap" and "open_devnull x = None"
    and "popen_result x = Inr pid" and "getpgid x pid = Inr pgid"
  shows "init_server m x e w =
    (let port = randint 10000 60000 (rand_raw x);
         e2 = e\<lparr>server_port := Some port, server_process := Some pid\<rparr>;
         w3 = (emit (Popen (launch_argv (SERVER_BINARY m) smap port) Setsid DevNull)
                 (emit (Print ''Initializing new Carla server...'') w))
               \<lparr>live_carla_processes := insert pgid (live_carla_processes w)\<rparr>
     in case RETRIES_ON_ERROR m of
          None \<Rightarrow> (Inl (NameError ''RETRIES_ON_ERROR''), e2, w3)
        | Some v \<Rightarrow>
           (case py_range v of
              Inl ex \<Rightarrow> (Inl ex, e2, w3)
            | Inr n \<Rightarrow> retry_loop x [0..<n] e2 w3))"
  using assms
  by (simp add: init_server_def Let_def getitem_def split: option.splits sum.splits)

text \<open>What any call of \<^verbatim>\<open>init_server\<close> logs, and what it does to the registry.\<close>

lemma init_server_trace:
  assumes "init_server m x e w = (r, e', w')"
  shows "\<exists>t. trace w' = trace w @ (Print ''Initializing new Carla server...'', live_carla_processes w) # t
     \<and> server_port e' = Some (randint 10000 60000 (rand_raw x))
     \<and> live_carla_processes w \<subseteq> live_carla_processes w'
     \<and> (t = [] \<and> live_carla_processes w' = live_carla_processes w
        \<or> (\<exists>smap post. config e ''server_map'' = Some smap \<and> open_devnull x = None
             \<and> t = (Popen (launch_argv (SERVER_BINARY m) smap (randint 10000 60000 (rand_raw x)))
                       Setsid DevNull, live_carla_processes w) # post
             \<and> (\<forall>entry\<in>set post. snd entry = live_carla_processes w')
             \<and> (\<forall>entry\<in>set post. \<forall>argv pre out. fst entry \<noteq> Popen argv pre out)
             \<and> (RETRIES_ON_ERROR m = None \<longrightarrow> post = [])))"
proof -
  let ?port = "randint 10000 60000 (rand_raw x)"
  let ?w1 = "emit (Print ''Initializing new Carla server...'') w"
  show ?thesis
  proof (cases "config e ''server_map''")
    case None
    with assms show ?thesis by (auto simp: init_server_def Let_def getitem_def)
  next
    case (Some smap)
    let ?w2 = "emit (Popen (launch_argv (SERVER_BINARY m) smap ?port) Setsid DevNull) ?w1"
    show ?thesis
    proof (cases "open_devnull x")
      case (Some ex)
      with assms \<open>config e ''server_map'' = Some smap\<close> show ?thesis
        by (auto simp: init_server_def Let_def getitem_def)
    next
      case None
      note dn = this
      show ?thesis
      proof (cases "popen_result x")
        case (Inl ex)
        with assms dn \<open>config e ''server_map'' = Some smap\<close> show ?thesis
          by (auto simp: init_server_def Let_def getitem_def)
      next
        case (Inr pid)
        note po = this
        show ?thesis
        proof (cases "getpgid x pid")
          case (Inl ex)
          with assms dn po \<open>config e ''server_map'' = Some smap\<close> show ?thesis
            by (auto simp: init_server_def Let_def getitem_def)
        next
          case (Inr pgid)
          let ?e2 = "e\<lparr>server_port := Some ?port, server_process := Some pid\<rparr>"
          let ?w3 = "?w2\<lparr>live_carla_processes := insert pgid (live_carla_processes w)\<rparr>"
          note sp = init_server_spawned [OF \<open>config e ''server_map'' = Some smap\<close> dn po Inr, of m w]
          show ?thesis
          proof (cases "\<exists>v n. RETRIES_ON_ERROR m = Some v \<and> py_range v = Inr n")
            case False
            with assms sp have "e' = ?e2" "w' = ?w3"
              by (auto simp: Let_def split: option.splits sum.splits)
            with \<open>config e ''server_map'' = Some smap\<close> dn show ?thesis by auto
          next
            case True
            then obtain v n where vn: "RETRIES_ON_ERROR m = Some v" "py_range v = Inr n"
              by blast
            with assms sp have "retry_loop x [0..<n] ?e2 ?w3 = (r, e', w')"
              by (simp add: Let_def)
            from retry_loop_frame [OF this] obtain t where t:
              "live_carla_processes w' = insert pgid (live_carla_processes w)"
              "server_port e' = Some ?port"
              "trace w' = trace ?w3 @ t"
              "\<forall>entry\<in>set t. snd entry = insert pgid (live_carla_processes w)
                  \<and> (\<forall>argv pre out. fst entry \<noteq> Popen argv pre out)"
              by auto
            with \<open>config e ''server_map'' = Some smap\<close> dn vn show ?thesis by auto
          qed
        qed
      qed
    qed
  qed
qed


lemma load_config_fields:
  assumes "load_config bin pc sc0 = Inr m"
  shows "SERVER_BINARY m = bin" and "RETRIES_ON_ERROR m = None"
    and "COMMANDS_ENUM m = commands_enum pc" and "COMMAND_ORDINAL m = command_ordinal"
    and "ENV_CONFIG m ''seed'' = Some (VInt 1)"
  using assms by (auto simp: load_config_def ebind_eq_Inr env_config_def)

lemma import_module_Inr:
  assumes "import_module os = (Inr m, w0)"
  shows "lib_imports os = None" and "path_exists os (server_binary_path os)"
    and "\<exists>pc sc0. carla_pkg os = Inr pc \<and> scenarios_json os = Inr sc0
           \<and> load_config (server_binary_path os) pc sc0 = Inr m"
    and "w0 = emit (AtexitRegister ''cleanup'') fresh_world"
  using assms
  by (auto simp: import_module_def Let_def split: option.splits if_splits sum.splits)

lemma example_import: "import_module example_os = (Inr example_module, example_world)"
  by (simp add: import_module_def example_os_def server_binary_path_def example_scenarios_def
      load_config_def index_list_def example_module_def example_world_def)

lemma example_construct:
  "CarlaEnv_init example_module example_Planner example_config example_world
     = (Inr example_env, example_world)"
  by (simp add: CarlaEnv_init_def example_config_def example_module_def env_config_def
      getitem_def index_list_def example_Planner_def example_env_def len_def
      commands_enum_def dict_display_def example_consts_def)


lemma example_init_server:
  "init_server example_module example_ext example_env example_world =
     (Inl (NameError ''RETRIES_ON_ERROR''),
      example_env\<lparr>server_port := Some 22345, server_process := Some 4242\<rparr>,
      \<lparr>live_carla_processes = {4242},
       trace = [(AtexitRegister ''cleanup'', {}),
                (Print ''Initializing new Carla server...'', {}),
                (Popen [VStr ''/opt/carla/CarlaUE4.sh'', VStr ''/Game/Maps/Town02'',
                        VStr ''-windowed'', VStr ''-ResX=400'', VStr ''-ResY=300'',
                        VStr ''-carla-server'', VStr ''-carla-world-port=22345'']
                   Setsid DevNull, {})]\<rparr>)"
  by (simp add: init_server_def example_module_def example_ext_def example_env_def
      example_config_def env_config_def getitem_def randint_def launch_argv_def
      str_int_def nat_digits.simps example_world_def fresh_world_def emit_def Let_def)

section \<open>The undefined retry bound\<close>

text \<open>
  Claim C8.  No statement of the module binds the name \<^verbatim>\<open>RETRIES_ON_ERROR\<close>, so after
  any successful import the name is unbound.  Every call of \<^verbatim>\<open>init_server\<close> then ends in
  an exception and logs no connection attempt (neither the construction of a client nor
  a \<^verbatim>\<open>connect\<close>).  When the spawn and the registration go through, the exception is the
  \<^verbatim>\<open>NameError\<close> for \<^verbatim>\<open>RETRIES_ON_ERROR\<close>, raised after the child was spawned and its
  group id added to the registry; the call has logged its message and the spawn, and
  nothing else.
\<close>

theorem init_server_undefined_retry_bound:
  assumes "import_module os = (Inr m, w0)"
    and "init_server m x e w = (r, e', w')"
  shows "RETRIES_ON_ERROR m = None
    \<and> (\<exists>ex. r = Inl ex)
    \<and> (\<forall>entry\<in>set (since w w'). \<not> is_connection (fst entry))
    \<and> (\<forall>smap pid pgid.
          config e ''server_map'' = Some smap \<and> open_devnull x = None
          \<and> popen_result x = Inr pid \<and> getpgid x pid = Inr pgid
          \<longrightarrow> r = Inl (NameError ''RETRIES_ON_ERROR'')
              \<and> server_process e' = Some pid
              \<and> live_carla_processes w' = insert pgid (live_carla_processes w)
              \<and> map fst (since w w') =
                  [Print ''Initializing new Carla server...'',
                   Popen (launch_argv (SERVER_BINARY m) smap (randint 10000 60000 (rand_raw x)))
                     Setsid DevNull])"
proof -
  from import_module_Inr(3) [OF assms(1)] have unbound: "RETRIES_ON_ERROR m = None"
    using load_config_fields(2) by blast
  from init_server_trace [OF assms(2)] unbound
  have quiet: "\<forall>entry\<in>set (since w w'). \<not> is_connection (fst entry)"
    by (auto simp: since_def)
  have fails: "\<exists>ex. r = Inl ex"
    using assms(2) unbound
    by (auto simp: init_server_def Let_def split: sum.splits option.splits)
  have spawned: "r = Inl (NameError ''RETRIES_ON_ERROR'')
      \<and> server_process e' = Some pid
      \<and> live_carla_processes w' = insert pgid (live_carla_processes w)
      \<and> map fst (since w w') =
          [Print ''Initializing new Carla server...'',
           Popen (launch_argv (SERVER_BINARY m) smap (randint 10000 60000 (rand_raw x)))
             Setsid DevNull]"
    if "config e ''server_map'' = Some smap" "open_devnull x = None"
       "popen_result x = Inr pid" "getpgid x pid = Inr pgid" for smap pid pgid
    using init_server_spawned [OF that, of m w] assms(2) unbound
    by (auto simp: Let_def since_def)
  from unbound fails quiet spawned show ?thesis by blast
qed

theorem init_server_undefined_retry_bound_witness:
  "import_module example_os = (Inr example_module, example_world)
   \<and> fst (init_server example_module example_ext example_env example_world)
       = Inl (NameError ''RETRIES_ON_ERROR'')
   \<and> live_carla_processes (snd (snd (init_server example_module example_ext example_env example_world)))
       = {4242}"
proof -
  obtain r e' w' where run:
    "init_server example_module (example_ext :: (nat, string) ext) example_env example_world = (r, e', w')"
    by (cases "init_server example_module (example_ext :: (nat, string) ext) example_env example_world") auto
  have "config example_env ''server_map'' = Some (VStr ''/Game/Maps/Town02'')"
    by (simp add: example_env_def example_config_def example_module_def env_config_def)
  moreover have "open_devnull example_ext = None" "popen_result example_ext = Inr 4242"
    "getpgid example_ext 4242 = Inr 4242"
    by (simp_all add: example_ext_def)
  ultimately have "r = Inl (NameError ''RETRIES_ON_ERROR'')"
    "live_carla_processes w' = insert 4242 (live_carla_processes example_world)"
    using init_server_undefined_retry_bound [OF example_import run] by blast+
  with run example_import show ?thesis
    by (simp add: example_world_def fresh_world_def)
qed



lemma kill_each_live: "live_carla_processes (snd (kill_each killpg order w)) = live_carla_processes w"
  by (induction order arbitrary: w) (auto simp: Let_def split: option.splits)

lemma cleanup_live: "live_carla_processes (snd (cleanup killpg order w)) = live_carla_processes w"
  by (simp add: cleanup_def kill_each_live)

lemma CarlaEnv_init_world: "snd (CarlaEnv_init m Planner cfg w) = w"
  by (simp add: CarlaEnv_init_def)

lemma example_env_config: "config example_env ''server_map'' = Some (VStr ''/Game/Maps/Town02'')"
  by (simp add: example_env_def example_config_def example_module_def env_config_def)

lemma example_ext_spawn:
  "open_devnull example_ext = None" "popen_result example_ext = Inr 4242"
  "getpgid example_ext 4242 = Inr 4242" "rand_raw example_ext = 12345"
  by (simp_all add: example_ext_def)

lemma init_server_spawned_trace:
  assumes "init_server m x e w = (r, e', w')"
    and "config e ''server_map'' = Some smap" and "open_devnull x = None"
    and "popen_result x = Inr pid" and "getpgid x pid = Inr pgid"
  shows "live_carla_processes w' = insert pgid (live_carla_processes w)
    \<and> server_process e' = Some pid
    \<and> (\<exists>post. trace w' = trace w @
            (Print ''Initializing new Carla server...'', live_carla_processes w)
            # (Popen (launch_argv (SERVER_BINARY m) smap (randint 10000 60000 (rand_raw x)))
                 Setsid DevNull, live_carla_processes w) # post
          \<and> (\<forall>entry\<in>set post. snd entry = insert pgid (live_carla_processes w)))"
proof -
  let ?port = "randint 10000 60000 (rand_raw x)"
  let ?e2 = "e\<lparr>server_port := Some ?port, server_process := Some pid\<rparr>"
  let ?w3 = "(emit (Popen (launch_argv (SERVER_BINARY m) smap ?port) Setsid DevNull)
                (emit (Print ''Initializing new Carla server...'') w))
              \<lparr>live_carla_processes := insert pgid (live_carla_processes w)\<rparr>"
  note sp = init_server_spawned [OF assms(2-5), of m w]
  show ?thesis
  proof (cases "\<exists>v n. RETRIES_ON_ERROR m = Some v \<and> py_range v = Inr n")
    case False
    with assms(1) sp have "e' = ?e2" "w' = ?w3"
      by (auto simp: Let_def split: option.splits sum.splits)
    then show ?thesis by simp
  next
    case True
    then obtain v n where "RETRIES_ON_ERROR m = Some v" "py_range v = Inr n"
      by blast
    with assms(1) sp have "retry_loop x [0..<n] ?e2 ?w3 = (r, e', w')"
      by (simp add: Let_def)
    from retry_loop_frame [OF this] show ?thesis by auto
  qed
qed

section \<open>Registration of the spawned group\<close>

text \<open>
  Claim C1.  Take a call of \<^verbatim>\<open>init_server\<close> in which the child is spawned with pid
  \<open>pid\<close> and \<^verbatim>\<open>os.getpgid\<close> gives its group id \<open>pgid\<close>.  After the call \<open>pgid\<close> is in
  the registry.  What the call logs starts with its message and the spawn, both with the
  registry as it was before the call; everything logged after the spawn, and so every
  connection attempt, finds \<open>pgid\<close> in the registry.  No operation of the module
  takes it out again: not a further \<^verbatim>\<open>init_server\<close>, not the construction of an
  environment, and not even \<^verbatim>\<open>cleanup\<close>.
\<close>

theorem group_registered_before_connecting:
  assumes "init_server m x e w = (r, e', w')"
    and "config e ''server_map'' = Some smap" and "open_devnull x = None"
    and "popen_result x = Inr pid" and "getpgid x pid = Inr pgid"
  shows "pgid \<in> live_carla_processes w'
    \<and> (\<exists>argv post.
          since w w' = (Print ''Initializing new Carla server...'', live_carla_processes w)
                       # (Popen argv Setsid DevNull, live_carla_processes w) # post
          \<and> (\<forall>entry\<in>set post. pgid \<in> snd entry)
          \<and> (\<forall>entry\<in>set (since w w'). is_connection (fst entry) \<longrightarrow> entry \<in> set post))
    \<and> (\<forall>m2 x2 e2. pgid \<in> live_carla_processes (snd (snd (init_server m2 x2 e2 w'))))
    \<and> (\<forall>m2 Planner cfg. pgid \<in> live_carla_processes (snd (CarlaEnv_init m2 Planner cfg w')))
    \<and> (\<forall>killpg order. pgid \<in> live_carla_processes (snd (cleanup killpg order w')))"
proof -
  from init_server_spawned_trace [OF assms] obtain post where post:
    "live_carla_processes w' = insert pgid (live_carla_processes w)"
    "trace w' = trace w @
       (Print ''Initializing new Carla server...'', live_carla_processes w)
       # (Popen (launch_argv (SERVER_BINARY m) smap (randint 10000 60000 (rand_raw x)))
            Setsid DevNull, live_carla_processes w) # post"
    "\<forall>entry\<in>set post. snd entry = insert pgid (live_carla_processes w)"
    by blast
  have registered: "pgid \<in> live_carla_processes w'" using post(1) by simp
  have order: "\<exists>argv post.
      since w w' = (Print ''Initializing new Carla server...'', live_carla_processes w)
                   # (Popen argv Setsid DevNull, live_carla_processes w) # post
      \<and> (\<forall>entry\<in>set post. pgid \<in> snd entry)
      \<and> (\<forall>entry\<in>set (since w w'). is_connection (fst entry) \<longrightarrow> entry \<in> set post)"
    using post(2,3) by (auto simp: since_def)
  have kept_server: "pgid \<in> live_carla_processes (snd (snd (init_server m2 x2 e2 w')))"
    for m2 :: "'e module" and x2 :: "('f, 'g) ext" and e2 :: "('h, 'f) carla_env"
  proof -
    obtain r2 e3 w3 where "init_server m2 x2 e2 w' = (r2, e3, w3)"
      by (cases "init_server m2 x2 e2 w'") auto
    with init_server_trace [OF this] registered show ?thesis by auto
  qed
  have kept_init: "pgid \<in> live_carla_processes (snd (CarlaEnv_init m2 Planner cfg w'))"
    for m2 :: "'i module" and Planner :: "string \<Rightarrow> exn + 'j" and cfg
    using registered by (simp add: CarlaEnv_init_world)
  have kept_cleanup: "pgid \<in> live_carla_processes (snd (cleanup killpg order w'))"
    for killpg order
    using registered by (simp add: cleanup_live)
  from registered order kept_server kept_init kept_cleanup show ?thesis by blast
qed

theorem group_registered_before_connecting_witness:
  "fst (init_server (example_module_retries 3) example_ext example_env example_world)
     = Inr (Some ''connected'')
   \<and> 4242 \<in> live_carla_processes
        (snd (snd (init_server (example_module_retries 3) example_ext example_env example_world)))"
proof -
  let ?run = "init_server (example_module_retries 3) example_ext example_env example_world"
  obtain r e' w' where run: "?run = (r, e', w')"
    by (cases ?run) auto
  from group_registered_before_connecting
    [OF run example_env_config example_ext_spawn(1) example_ext_spawn(2) example_ext_spawn(3)]
  have "4242 \<in> live_carla_processes w'"
    by (rule conjunct1)
  moreover have "fst ?run = Inr (Some ''connected'')"
  proof -
    have idx: "[0..<nat 3] = [0, 1, 2]" by (simp add: upt_conv_Cons)
    have "?run = retry_loop example_ext [0, 1, 2]
        (example_env\<lparr>server_port := Some (randint 10000 60000 12345), server_process := Some 4242\<rparr>)
        ((emit (Popen (launch_argv ''/opt/carla/CarlaUE4.sh'' (VStr ''/Game/Maps/Town02'')
                  (randint 10000 60000 12345)) Setsid DevNull)
            (emit (Print ''Initializing new Carla server...'') example_world))
          \<lparr>live_carla_processes := insert 4242 (live_carla_processes example_world)\<rparr>)"
      using idx
      by (simp add: init_server_spawned [OF example_env_config example_ext_spawn(1)
            example_ext_spawn(2) example_ext_spawn(3)] example_ext_spawn(4)
          example_module_retries_def example_module_def Let_def)
    moreover have "fst (retry_loop example_ext [0, 1, 2] e w) = Inr (Some ''connected'')"
      for e :: "(string, nat) carla_env" and w
      by (simp add: attempt_def example_ext_def Let_def)
    ultimately show ?thesis by simp
  qed
  ultimately show ?thesis using run by simp
qed



section \<open>The launch command line\<close>

text \<open>
  Claim C6.  Every spawn that \<^verbatim>\<open>init_server\<close> makes runs with \<^verbatim>\<open>preexec_fn=os.setsid\<close>, so
  the child leads a session and process group of its own, and with its standard output
  sent to the null device.  Its command line is the binary path, the \<^verbatim>\<open>server_map\<close> of
  the configuration, \<^verbatim>\<open>-windowed\<close>, \<^verbatim>\<open>-ResX=400\<close>, \<^verbatim>\<open>-ResY=300\<close>, \<^verbatim>\<open>-carla-server\<close> and
  \<^verbatim>\<open>-carla-world-port=\<close> followed by the port in decimal; the port is the one drawn by
  \<^verbatim>\<open>random.randint(10000, 60000)\<close>, lies between 10000 and 60000 inclusive, and is the
  one stored in \<^verbatim>\<open>server_port\<close>.
\<close>

theorem spawn_command_line:
  assumes "init_server m x e w = (r, e', w')"
    and "(Popen argv pre out, reg) \<in> set (since w w')"
  shows "\<exists>smap port.
      config e ''server_map'' = Some smap
    \<and> port = randint 10000 60000 (rand_raw x)
    \<and> 10000 \<le> port \<and> port \<le> 60000
    \<and> server_port e' = Some port
    \<and> argv = [VStr (SERVER_BINARY m), smap,
               VStr ''-windowed'', VStr ''-ResX=400'', VStr ''-ResY=300'',
               VStr ''-carla-server'',
               VStr (''-carla-world-port='' @ str_int port)]
    \<and> pre = Setsid \<and> out = DevNull"
proof -
  let ?port = "randint 10000 60000 (rand_raw x)"
  from init_server_trace [OF assms(1)] obtain t where t:
    "trace w' = trace w @ (Print ''Initializing new Carla server...'', live_carla_processes w) # t"
    "server_port e' = Some ?port"
    "t = [] \<or> (\<exists>smap post. config e ''server_map'' = Some smap
        \<and> t = (Popen (launch_argv (SERVER_BINARY m) smap ?port) Setsid DevNull,
                live_carla_processes w) # post
        \<and> (\<forall>entry\<in>set post. \<forall>argv pre out. fst entry \<noteq> Popen argv pre out))"
    by blast
  from t(1) have s: "since w w' = (Print ''Initializing new Carla server...'', live_carla_processes w) # t"
    by (simp add: since_def)
  with assms(2) have "(Popen argv pre out, reg) \<in> set t" by auto
  with t(3) obtain smap post where sp: "config e ''server_map'' = Some smap"
    "t = (Popen (launch_argv (SERVER_BINARY m) smap ?port) Setsid DevNull,
          live_carla_processes w) # post"
    "\<forall>entry\<in>set post. \<forall>argv pre out. fst entry \<noteq> Popen argv pre out"
    by auto
  from \<open>(Popen argv pre out, reg) \<in> set t\<close> sp(2,3)
  have "Popen argv pre out = Popen (launch_argv (SERVER_BINARY m) smap ?port) Setsid DevNull"
    by fastforce
  with sp(1) t(2) randint_range [of "rand_raw x"] show ?thesis
    by (simp add: launch_argv_def)
qed

theorem spawn_command_line_witness:
  "(Popen [VStr ''/opt/carla/CarlaUE4.sh'', VStr ''/Game/Maps/Town02'',
           VStr ''-windowed'', VStr ''-ResX=400'', VStr ''-ResY=300'',
           VStr ''-carla-server'', VStr ''-carla-world-port=22345''] Setsid DevNull, {})
     \<in> set (since example_world
          (snd (snd (init_server example_module example_ext example_env example_world))))
   \<and> server_port (fst (snd (init_server example_module example_ext example_env example_world)))
       = Some (randint 10000 60000 12345)
   \<and> 10000 \<le> randint 10000 60000 12345 \<and> randint 10000 60000 12345 \<le> 60000"
proof -
  let ?argv = "[VStr ''/opt/carla/CarlaUE4.sh'', VStr ''/Game/Maps/Town02'',
           VStr ''-windowed'', VStr ''-ResX=400'', VStr ''-ResY=300'',
           VStr ''-carla-server'', VStr ''-carla-world-port=22345'']"
  define w' where "w' = \<lparr>live_carla_processes = {4242},
       trace = [(AtexitRegister ''cleanup'', {}),
                (Print ''Initializing new Carla server...'', {}),
                (Popen ?argv Setsid DevNull, {})]\<rparr>"
  define e' where "e' = example_env\<lparr>server_port := Some 22345, server_process := Some 4242\<rparr>"
  have run: "init_server example_module (example_ext :: (nat, string) ext) example_env example_world
      = (Inl (NameError ''RETRIES_ON_ERROR''), e', w')"
    by (simp add: example_init_server w'_def e'_def)
  have logged: "(Popen ?argv Setsid DevNull, {}) \<in> set (since example_world w')"
    by (simp add: w'_def since_def example_world_def fresh_world_def emit_def)
  from spawn_command_line [OF run logged]
  have "server_port e' = Some (randint 10000 60000 12345)"
    "10000 \<le> randint 10000 60000 12345" "randint 10000 60000 12345 \<le> 60000"
    by (simp_all add: example_ext_spawn)
  with logged show ?thesis by (simp add: run)
qed

section \<open>The check of the binary path at import\<close>

text \<open>
  Claim C5.  If the path of the simulator binary (the environment variable
  \<^verbatim>\<open>CARLA_SERVER\<close>, or the default under the home directory) does not exist, the import of
  the module raises, having done nothing: with the libraries importable, what it raises
  is the \<^verbatim>\<open>AssertionError\<close> of line 22.  No module object results, so no environment can be
  constructed and \<^verbatim>\<open>init_server\<close> cannot be called.  After a successful import
  \<^verbatim>\<open>SERVER_BINARY\<close> is a path that existed when it was checked, and it is the first word
  of every command line that \<^verbatim>\<open>init_server\<close> spawns.
\<close>

theorem import_fails_without_binary:
  "(\<not> path_exists os (server_binary_path os) \<longrightarrow>
       (\<exists>ex. import_module os = (Inl ex, fresh_world))
     \<and> (lib_imports os = None \<longrightarrow>
          import_module os = (Inl (AssertionError assert_msg), fresh_world)))
   \<and> (\<forall>m w0. import_module os = (Inr m, w0) \<longrightarrow>
          SERVER_BINARY m = server_binary_path os \<and> path_exists os (SERVER_BINARY m)
        \<and> (\<forall>x e w r e' w' argv pre out reg.
              init_server m (x :: ('cl, 'r) ext) (e :: ('p, 'cl) carla_env) w = (r, e', w')
              \<and> (Popen argv pre out, reg) \<in> set (since w w')
              \<longrightarrow> (\<exists>rest. argv = VStr (SERVER_BINARY m) # rest)))"
proof -
  have fails: "(\<exists>ex. import_module os = (Inl ex, fresh_world))
     \<and> (lib_imports os = None \<longrightarrow>
          import_module os = (Inl (AssertionError assert_msg), fresh_world))"
    if "\<not> path_exists os (server_binary_path os)"
    using that by (auto simp: import_module_def Let_def split: option.splits)
  have ok: "SERVER_BINARY m = server_binary_path os \<and> path_exists os (SERVER_BINARY m)"
    if "import_module os = (Inr m, w0)" for m w0
    using import_module_Inr(2,3) [OF that] load_config_fields(1) by fastforce
  have spawn: "\<exists>rest. argv = VStr (SERVER_BINARY m) # rest"
    if "init_server m (x :: ('cl, 'r) ext) (e :: ('p, 'cl) carla_env) w = (r, e', w')"
      "(Popen argv pre out, reg) \<in> set (since w w')"
    for m :: "'c module" and x e w r e' w' argv pre out reg
    using init_server_trace [OF that(1)] that(2)
    by (fastforce simp: since_def launch_argv_def)
  from fails ok spawn show ?thesis by blast
qed

theorem import_fails_without_binary_witness:
  "\<not> path_exists example_os_no_binary (server_binary_path example_os_no_binary)
   \<and> import_module example_os_no_binary = (Inl (AssertionError assert_msg), fresh_world)
   \<and> import_module example_os = (Inr example_module, example_world)
   \<and> path_exists example_os (SERVER_BINARY example_module)"
proof -
  have missing: "\<not> path_exists example_os_no_binary (server_binary_path example_os_no_binary)"
    and libs: "lib_imports example_os_no_binary = None"
    by (simp_all add: example_os_no_binary_def example_os_def)
  from import_fails_without_binary [of example_os_no_binary] missing libs
  have "import_module example_os_no_binary = (Inl (AssertionError assert_msg), fresh_world)"
    by blast
  moreover from import_fails_without_binary [of example_os] example_import
  have "path_exists example_os (SERVER_BINARY example_module)"
    by blast
  ultimately show ?thesis using missing example_import by simp
qed

section \<open>Construction of an environment\<close>

text \<open>
  Claim C7.  When \<^verbatim>\<open>__init__\<close> returns, the world is the one it started in (the registry
  is unchanged and nothing was logged: no spawn, no connection), \<^verbatim>\<open>server_port\<close>,
  \<^verbatim>\<open>server_process\<close> and \<^verbatim>\<open>client\<close> are \<^verbatim>\<open>None\<close>, the counters are zero, and the
  observation space is the tuple of the image space, \<^verbatim>\<open>Discrete(len(COMMANDS_ENUM))\<close> and
  the box of shape \<^verbatim>\<open>(2,)\<close> between -128 and 128.
\<close>

theorem construction_spawns_nothing:
  assumes "CarlaEnv_init m Planner cfg w = (Inr e, w')"
  shows "w' = w
    \<and> live_carla_processes w' = live_carla_processes w
    \<and> since w w' = []
    \<and> server_port e = None \<and> server_process e = None \<and> client e = None
    \<and> num_steps e = 0 \<and> total_reward e = 0
    \<and> (\<exists>image. observation_space e =
          Tuple [image, Discrete (len (COMMANDS_ENUM m)), Box (- 128) 128 [VInt 2] Float32])"
  using assms by (auto simp: CarlaEnv_init_def ebind_eq_Inr)

theorem construction_spawns_nothing_witness:
  "CarlaEnv_init example_module example_Planner example_config example_world
     = (Inr example_env, example_world)
   \<and> server_port example_env = None \<and> server_process example_env = None
   \<and> client example_env = None \<and> since example_world example_world = []"
  using construction_spawns_nothing [OF example_construct] example_construct by simp


section \<open>The stored seed\<close>

text \<open>
  Claim C9.  The \<^verbatim>\<open>_seed\<close> of a constructed environment is \<^verbatim>\<open>ENV_CONFIG["seed"]\<close> of the
  module, whatever the \<^verbatim>\<open>config\<close> argument holds.  If a second configuration differs from
  the first in nothing but its \<^verbatim>\<open>"seed"\<close> entry, its construction succeeds as well and
  gives the same environment apart from the stored configuration, with the same
  \<^verbatim>\<open>_seed\<close>.  In a module that was just imported that seed is 1.
\<close>

theorem seed_taken_from_default_config:
  assumes "\<forall>k. k \<noteq> ''seed'' \<longrightarrow> cfg2 k = cfg1 k"
    and "CarlaEnv_init m Planner cfg1 w1 = (Inr e1, w1')" (is "?init1 = _")
  shows "ENV_CONFIG m ''seed'' = Some (seed e1)
    \<and> (\<exists>e2. CarlaEnv_init m Planner cfg2 w2 = (Inr e2, w2)
            \<and> e2 = e1\<lparr>config := cfg2\<rparr> \<and> seed e2 = seed e1)
    \<and> (\<forall>os w0. import_module os = (Inr m, w0) \<longrightarrow> seed e1 = VInt 1)"
proof -
  have same: "getitem cfg2 k = getitem cfg1 k" if "k \<noteq> ''seed''" for k
    using assms(1) that by (simp add: getitem_def)
  have default: "ENV_CONFIG m ''seed'' = Some (seed e1)"
    using assms(2)
    by (auto simp: CarlaEnv_init_def ebind_eq_Inr getitem_def split: option.splits)
  have "CarlaEnv_init m Planner cfg2 w2 =
          (map_sum id (\<lambda>e. e\<lparr>config := cfg2\<rparr>) (fst ?init1), w2)"
    by (simp add: CarlaEnv_init_def same ebind_def split: sum.splits)
  with assms(2) have other: "\<exists>e2. CarlaEnv_init m Planner cfg2 w2 = (Inr e2, w2)
            \<and> e2 = e1\<lparr>config := cfg2\<rparr> \<and> seed e2 = seed e1"
    by simp
  have imported: "seed e1 = VInt 1" if "import_module os = (Inr m, w0)" for os w0
    using import_module_Inr(3) [OF that] load_config_fields(5) default by fastforce
  from default other imported show ?thesis by blast
qed

theorem seed_taken_from_default_config_witness:
  "example_seed_config ''seed'' = Some (VInt 7)
   \<and> example_config ''seed'' = Some (VInt 1)
   \<and> CarlaEnv_init example_module example_Planner example_seed_config example_world
       = (Inr (example_env\<lparr>config := example_seed_config\<rparr>), example_world)
   \<and> seed (example_env\<lparr>config := example_seed_config\<rparr>) = VInt 1"
proof -
  have differ: "\<forall>k. k \<noteq> ''seed'' \<longrightarrow> example_seed_config k = example_config k"
    by (simp add: example_seed_config_def)
  from seed_taken_from_default_config [OF differ example_construct, of example_world]
  have "CarlaEnv_init example_module example_Planner example_seed_config example_world
       = (Inr (example_env\<lparr>config := example_seed_config\<rparr>), example_world)"
    "ENV_CONFIG example_module ''seed'' = Some (seed example_env)"
    by auto
  moreover have "seed example_env = VInt 1" by (simp add: example_env_def)
  ultimately show ?thesis
    by (simp add: example_seed_config_def example_config_def)
qed

lemma split_char_nonempty: "split_char sep s \<noteq> []"
  by (induction s) (auto split: list.splits)

lemma CarlaEnv_init_succeeds:
  assumes "cfg ''server_map'' = Some (VStr s)" and "cfg ''enable_planner'' = Some ep"
    and "truthy ep \<longrightarrow> (\<exists>p. Planner (last (split_char (CHR ''/'') s)) = Inr p)"
    and "cfg ''use_depth_camera'' = Some depth"
    and "cfg ''y_res'' = Some y" and "cfg ''x_res'' = Some x"
    and "cfg ''framestack'' = Some (VInt f)"
    and "ENV_CONFIG m ''seed'' = Some sd"
  shows "\<exists>e. CarlaEnv_init m Planner cfg w = (Inr e, w)"
proof -
  have "index_list (split_char (CHR ''/'') s) (- 1) = Inr (last (split_char (CHR ''/'') s))"
    using split_char_nonempty [of "CHR ''/''" s]
    by (cases "split_char (CHR ''/'') s" rule: rev_cases)
       (auto simp: index_list_def nat_add_distrib)
  with assms show ?thesis
    by (auto simp: CarlaEnv_init_def getitem_def)
qed

section \<open>Channels of the image space\<close>

text \<open>
  Claim C4.  For a constructed environment whose configuration has the integer \<open>f\<close> as
  \<^verbatim>\<open>framestack\<close>: with \<^verbatim>\<open>use_depth_camera\<close> \<^verbatim>\<open>False\<close> the image component of the
  observation space is the box between 0 and 255 of shape \<^verbatim>\<open>(y_res, x_res, 3 * f)\<close>; with
  \<^verbatim>\<open>use_depth_camera\<close> \<^verbatim>\<open>True\<close> it is the box between -1 and 1 of shape
  \<^verbatim>\<open>(y_res, x_res, 1 * f)\<close>.  \<open>CarlaEnv_init_succeeds\<close> says when the construction succeeds.
\<close>

theorem image_space_channels:
  assumes "CarlaEnv_init m Planner cfg w = (Inr e, w')"
    and "cfg ''use_depth_camera'' = Some (VBool depth)"
    and "cfg ''framestack'' = Some (VInt f)"
  shows "\<exists>y x image.
      cfg ''y_res'' = Some y \<and> cfg ''x_res'' = Some x
    \<and> image_space (observation_space e) = Some image
    \<and> image = Box (if depth then - 1 else 0) (if depth then 1 else 255)
                [y, x, VInt ((if depth then 1 else 3) * f)] Float32
    \<and> box_shape image = Some [y, x, VInt ((if depth then 1 else 3) * f)]"
  using assms
  by (auto simp: CarlaEnv_init_def ebind_eq_Inr getitem_def split: option.splits if_splits)

theorem image_space_channels_witness:
  "image_space (observation_space example_env)
     = Some (Box 0 255 [VInt 80, VInt 80, VInt (3 * 2)] Float32)
   \<and> (\<exists>e. CarlaEnv_init example_module example_Planner example_depth_config example_world
             = (Inr e, example_world)
          \<and> image_space (observation_space (e :: (string, nat) carla_env))
             = Some (Box (- 1) 1 [VInt 80, VInt 80, VInt (1 * 2)] Float32))"
proof -
  have cfg: "example_config ''use_depth_camera'' = Some (VBool False)"
    "example_config ''framestack'' = Some (VInt 2)"
    "example_config ''y_res'' = Some (VInt 80)" "example_config ''x_res'' = Some (VInt 80)"
    by (simp_all add: example_config_def example_module_def env_config_def)
  from image_space_channels [OF example_construct cfg(1) cfg(2)] cfg(3,4)
  have plain: "image_space (observation_space example_env)
     = Some (Box 0 255 [VInt 80, VInt 80, VInt (3 * 2)] Float32)"
    by (auto simp: example_env_def)
  have dcfg: "example_depth_config ''use_depth_camera'' = Some (VBool True)"
    "example_depth_config ''framestack'' = Some (VInt 2)"
    "example_depth_config ''y_res'' = Some (VInt 80)"
    "example_depth_config ''x_res'' = Some (VInt 80)"
    "example_depth_config ''server_map'' = Some (VStr ''/Game/Maps/Town02'')"
    "example_depth_config ''enable_planner'' = Some (VBool True)"
    by (simp_all add: example_depth_config_def example_config_def example_module_def env_config_def)
  have sd: "ENV_CONFIG example_module ''seed'' = Some (VInt 1)"
    by (simp add: example_module_def env_config_def)
  have pl: "truthy (VBool True) \<longrightarrow>
      (\<exists>p. example_Planner (last (split_char (CHR ''/'') ''/Game/Maps/Town02'')) = Inr p)"
    by (simp add: example_Planner_def)
  from CarlaEnv_init_succeeds [where cfg = example_depth_config and Planner = example_Planner
      and s = "''/Game/Maps/Town02''" and m = example_module and w = example_world,
      OF dcfg(5) dcfg(6) pl dcfg(1) dcfg(3) dcfg(4) dcfg(2) sd]
  obtain e :: "(string, nat) carla_env" where
    e: "CarlaEnv_init example_module example_Planner example_depth_config example_world
          = (Inr e, example_world)"
    by blast
  from image_space_channels [OF e dcfg(1) dcfg(2)] dcfg(3,4)
  have "image_space (observation_space e)
     = Some (Box (- 1) 1 [VInt 80, VInt 80, VInt (1 * 2)] Float32)"
    by auto
  with plain e show ?thesis by blast
qed



lemma commands_enum_distinct:
  assumes "distinct [REACH_GOAL pc, GO_STRAIGHT pc, TURN_RIGHT pc, TURN_LEFT pc, LANE_FOLLOW pc]"
  shows "commands_enum pc =
     [(REACH_GOAL pc, ''REACH_GOAL''), (GO_STRAIGHT pc, ''GO_STRAIGHT''),
      (TURN_RIGHT pc, ''TURN_RIGHT''), (TURN_LEFT pc, ''TURN_LEFT''),
      (LANE_FOLLOW pc, ''LANE_FOLLOW'')]"
  using assms by (auto simp: commands_enum_def dict_display_def)

lemma command_ordinal_list:
  "command_ordinal =
     [(''REACH_GOAL'', 0), (''GO_STRAIGHT'', 1), (''TURN_RIGHT'', 2), (''TURN_LEFT'', 3),
      (''LANE_FOLLOW'', 4)]"
  by (simp add: command_ordinal_def dict_display_def)

section \<open>The command tables\<close>

text \<open>
  Claim C10.  The five command codes come from the planner module, which is outside the
  fragment; they are a parameter here and assumed pairwise different (equal codes would
  collapse entries of the display of \<^verbatim>\<open>COMMANDS_ENUM\<close>).  Then \<^verbatim>\<open>COMMANDS_ENUM\<close> has five
  entries, one for each code; \<^verbatim>\<open>COMMAND_ORDINAL\<close> has an index for every name that
  \<^verbatim>\<open>COMMANDS_ENUM\<close> produces, different names get different indices, and the indices are
  exactly \<open>0, ..., len(COMMANDS_ENUM) - 1\<close>.  So the index of every planner command is
  below the size of the \<^verbatim>\<open>Discrete\<close> component, which every constructed environment has
  as the second member of its observation space.
\<close>

theorem command_ordinal_covers_commands:
  assumes "import_module os = (Inr m, w0)" and "carla_pkg os = Inr pc"
    and "distinct [REACH_GOAL pc, GO_STRAIGHT pc, TURN_RIGHT pc, TURN_LEFT pc, LANE_FOLLOW pc]"
  shows "len (COMMANDS_ENUM m) = 5
    \<and> fst ` set (COMMANDS_ENUM m) =
        {REACH_GOAL pc, GO_STRAIGHT pc, TURN_RIGHT pc, TURN_LEFT pc, LANE_FOLLOW pc}
    \<and> (\<forall>entry\<in>set (COMMANDS_ENUM m).
          \<exists>i. map_of (COMMAND_ORDINAL m) (snd entry) = Some i \<and> i < len (COMMANDS_ENUM m))
    \<and> inj_on (map_of (COMMAND_ORDINAL m)) (snd ` set (COMMANDS_ENUM m))
    \<and> snd ` set (COMMAND_ORDINAL m) = {0..<len (COMMANDS_ENUM m)}
    \<and> (\<forall>Planner cfg w e w'.
          CarlaEnv_init m (Planner :: string \<Rightarrow> exn + 'p) cfg w
            = (Inr (e :: ('p, 'cl) carla_env), w')
          \<longrightarrow> (\<exists>image box. observation_space e =
                 Tuple [image, Discrete (len (COMMANDS_ENUM m)), box]))"
proof -
  from import_module_Inr(3) [OF assms(1)] assms(2)
  obtain sc0 where "load_config (server_binary_path os) pc sc0 = Inr m" by auto
  from load_config_fields(3,4) [OF this]
  have tables: "COMMANDS_ENUM m = commands_enum pc" "COMMAND_ORDINAL m = command_ordinal" .
  note enum = commands_enum_distinct [OF assms(3)]
  have n: "len (COMMANDS_ENUM m) = 5" by (simp add: tables enum len_def)
  have keys: "fst ` set (COMMANDS_ENUM m) =
        {REACH_GOAL pc, GO_STRAIGHT pc, TURN_RIGHT pc, TURN_LEFT pc, LANE_FOLLOW pc}"
    by (simp add: tables enum)
  have total: "\<forall>entry\<in>set (COMMANDS_ENUM m).
          \<exists>i. map_of (COMMAND_ORDINAL m) (snd entry) = Some i \<and> i < len (COMMANDS_ENUM m)"
    by (simp add: n) (simp add: tables enum command_ordinal_list)
  have inj: "inj_on (map_of (COMMAND_ORDINAL m)) (snd ` set (COMMANDS_ENUM m))"
    by (simp add: tables enum command_ordinal_list)
  have "{0..<5::nat} = {0, 1, 2, 3, 4}" by auto
  then have range: "snd ` set (COMMAND_ORDINAL m) = {0..<len (COMMANDS_ENUM m)}"
    by (simp add: n) (auto simp: tables command_ordinal_list)
  have space: "\<exists>image box. observation_space e =
                 Tuple [image, Discrete (len (COMMANDS_ENUM m)), box]"
    if "CarlaEnv_init m (Planner :: string \<Rightarrow> exn + 'p) cfg w
            = (Inr (e :: ('p, 'cl) carla_env), w')" for Planner cfg w e w'
    using that by (auto simp: CarlaEnv_init_def ebind_eq_Inr)
  from n keys total inj range space show ?thesis by blast
qed

theorem command_ordinal_covers_commands_witness:
  "len (COMMANDS_ENUM example_module) = 5
   \<and> map_of (COMMANDS_ENUM example_module) 3 = Some ''TURN_LEFT''
   \<and> map_of (COMMAND_ORDINAL example_module) ''TURN_LEFT'' = Some 3
   \<and> snd ` set (COMMAND_ORDINAL example_module) = {0..<5}"
proof -
  have pkg: "carla_pkg example_os = Inr example_consts"
    by (simp add: example_os_def)
  have d: "distinct [REACH_GOAL example_consts, GO_STRAIGHT example_consts,
      TURN_RIGHT example_consts, TURN_LEFT example_consts, LANE_FOLLOW example_consts]"
    by (simp add: example_consts_def)
  from command_ordinal_covers_commands [OF example_import pkg d]
  have "len (COMMANDS_ENUM example_module) = 5"
    "snd ` set (COMMAND_ORDINAL example_module) = {0..<len (COMMANDS_ENUM example_module)}"
    by blast+
  moreover have "map_of (COMMANDS_ENUM example_module) 3 = Some ''TURN_LEFT''"
    by (simp add: example_module_def commands_enum_distinct [OF d]) (simp add: example_consts_def)
  moreover have "map_of (COMMAND_ORDINAL example_module) ''TURN_LEFT'' = Some 3"
    by (simp add: example_module_def command_ordinal_list)
  ultimately show ?thesis by simp
qed



text \<open>The loop of \<^verbatim>\<open>cleanup\<close>: closed forms of what it returns and logs.\<close>

lemma kill_each_ok:
  assumes "\<forall>p\<in>set order. killpg p = None"
  shows "kill_each killpg order w =
     (Inr (), w\<lparr>trace := trace w @ map (\<lambda>p. (Killpg p, live_carla_processes w)) order\<rparr>)"
  using assms by (induction order arbitrary: w) (simp_all add: emit_def)

lemma kill_each_abort:
  assumes "\<forall>q\<in>set pre. killpg q = None" and "killpg p = Some ex"
  shows "kill_each killpg (pre @ p # post) w =
     (Inl ex, w\<lparr>trace := trace w @ map (\<lambda>p. (Killpg p, live_carla_processes w)) (pre @ [p])\<rparr>)"
  using assms by (induction pre arbitrary: w) (simp_all add: emit_def)

lemma kill_each_shape:
  "\<exists>r t. \<forall>w. kill_each killpg order w =
     (r, w\<lparr>trace := trace w @ map (\<lambda>p. (Killpg p, live_carla_processes w)) t\<rparr>)"
proof (induction order)
  case Nil
  have "\<forall>w. kill_each killpg [] w =
     (Inr (), w\<lparr>trace := trace w @ map (\<lambda>p. (Killpg p, live_carla_processes w)) []\<rparr>)"
    by simp
  then show ?case by blast
next
  case (Cons p rest)
  then obtain r t where rt: "\<And>w. kill_each killpg rest w =
     (r, w\<lparr>trace := trace w @ map (\<lambda>p. (Killpg p, live_carla_processes w)) t\<rparr>)"
    by blast
  show ?case
  proof (cases "killpg p")
    case (Some ex)
    then have "\<forall>w. kill_each killpg (p # rest) w =
       (Inl ex, w\<lparr>trace := trace w @ map (\<lambda>p. (Killpg p, live_carla_processes w)) [p]\<rparr>)"
      by (simp add: emit_def)
    then show ?thesis by blast
  next
    case None
    then have "\<forall>w. kill_each killpg (p # rest) w =
       (r, w\<lparr>trace := trace w @ map (\<lambda>p. (Killpg p, live_carla_processes w)) (p # t)\<rparr>)"
      by (simp add: rt emit_def)
    then show ?thesis by blast
  qed
qed

lemma cleanup_again:
  assumes "cleanup killpg order w = (r, w')"
  shows "\<exists>w''. cleanup killpg order w' = (r, w'') \<and> since w' w'' = since w w'"
proof -
  from kill_each_shape [of killpg order] obtain r0 t where rt:
    "\<And>w. kill_each killpg order w =
       (r0, w\<lparr>trace := trace w @ map (\<lambda>p. (Killpg p, live_carla_processes w)) t\<rparr>)"
    by blast
  from assms have "r = r0"
    and w': "w' = (emit PrintKilling w)\<lparr>trace := trace (emit PrintKilling w)
        @ map (\<lambda>p. (Killpg p, live_carla_processes w)) t\<rparr>"
    by (simp_all add: cleanup_def rt)
  then show ?thesis
    by (simp add: cleanup_def rt since_def)
qed

section \<open>The cleanup handler\<close>

text \<open>
  Claim C2 says that the handler signals every registered group, does not raise for a
  group that is gone, and leaves the registry empty.  The code has no \<^verbatim>\<open>try\<close> around
  \<^verbatim>\<open>os.killpg\<close> and never removes an entry, so the claim fails: with the groups 5 and 7
  registered and group 5 gone, the handler raises at 5 and never signals 7; and with
  both alive it signals both and the registry still holds both.
\<close>

theorem cleanup_without_handler_counterexample:
  "iteration_order [5, 7] example_registry
   \<and> cleanup group5_gone [5, 7] example_registry =
       (Inl ProcessLookupError,
        \<lparr>live_carla_processes = {5, 7},
         trace = [(PrintKilling, {5, 7}), (Killpg 5, {5, 7})]\<rparr>)
   \<and> cleanup all_alive [5, 7] example_registry =
       (Inr (),
        \<lparr>live_carla_processes = {5, 7},
         trace = [(PrintKilling, {5, 7}), (Killpg 5, {5, 7}), (Killpg 7, {5, 7})]\<rparr>)
   \<and> live_carla_processes (snd (cleanup all_alive [5, 7] example_registry)) \<noteq> {}"
  by (simp add: iteration_order_def example_registry_def cleanup_def group5_gone_def
      all_alive_def emit_def)

text \<open>
  Claim C2 as amended.  The handler calls \<^verbatim>\<open>os.killpg\<close> on the registered groups in
  iteration order.  If no call raises, every registered group is signalled once and the
  handler returns.  If the call for a group raises, the handler ends with that exception:
  the groups before it were signalled, the ones after it are not.  In both cases the
  registry is left as it was, and a second run with the same outcomes of \<^verbatim>\<open>os.killpg\<close>
  ends the same way after making the same calls again.
\<close>

theorem cleanup_signals_in_order:
  assumes "iteration_order order w" and "cleanup killpg order w = (r, w')"
  shows "live_carla_processes w' = live_carla_processes w
    \<and> ((\<forall>p\<in>live_carla_processes w. killpg p = None) \<longrightarrow>
          r = Inr () \<and> map fst (since w w') = PrintKilling # map Killpg order)
    \<and> (\<forall>pre p post ex.
          order = pre @ p # post \<and> (\<forall>q\<in>set pre. killpg q = None) \<and> killpg p = Some ex \<longrightarrow>
            r = Inl ex
          \<and> map fst (since w w') = PrintKilling # map Killpg (pre @ [p])
          \<and> (\<forall>q\<in>set post. Killpg q \<notin> set (map fst (since w w'))))
    \<and> (\<exists>w''. cleanup killpg order w' = (r, w'') \<and> since w' w'' = since w w')"
proof -
  let ?L = "live_carla_processes w"
  let ?w1 = "emit PrintKilling w"
  have run: "kill_each killpg order ?w1 = (r, w')"
    using assms(2) by (simp add: cleanup_def)
  have kept: "live_carla_processes w' = ?L"
    using cleanup_live [of killpg order w] assms(2) by simp
  have all_ok: "r = Inr () \<and> map fst (since w w') = PrintKilling # map Killpg order"
    if "\<forall>p\<in>?L. killpg p = None"
  proof -
    from that assms(1) have "\<forall>p\<in>set order. killpg p = None"
      by (simp add: iteration_order_def)
    from kill_each_ok [OF this, of ?w1] run
    have r: "r = Inr ()"
      and w': "w' = ?w1\<lparr>trace := trace ?w1 @ map (\<lambda>p. (Killpg p, live_carla_processes ?w1)) order\<rparr>"
      by simp_all
    have "trace w' = trace w @ (PrintKilling, ?L) # map (\<lambda>p. (Killpg p, ?L)) order"
      by (subst w') simp
    then have "since w w' = (PrintKilling, ?L) # map (\<lambda>p. (Killpg p, ?L)) order"
      by (rule since_append)
    with r show ?thesis by (simp add: comp_def)
  qed
  have abort: "r = Inl ex
      \<and> map fst (since w w') = PrintKilling # map Killpg (pre @ [p])
      \<and> (\<forall>q\<in>set post. Killpg q \<notin> set (map fst (since w w')))"
    if split: "order = pre @ p # post" and ok: "\<forall>q\<in>set pre. killpg q = None"
      and bad: "killpg p = Some ex"
    for pre p post ex
  proof -
    from kill_each_abort [OF ok bad, of post ?w1] run split
    have r: "r = Inl ex"
      and w': "w' = ?w1\<lparr>trace := trace ?w1
                 @ map (\<lambda>p. (Killpg p, live_carla_processes ?w1)) (pre @ [p])\<rparr>"
      by simp_all
    have "trace w' = trace w @ (PrintKilling, ?L) # map (\<lambda>p. (Killpg p, ?L)) (pre @ [p])"
      by (subst w') simp
    then have "since w w' = (PrintKilling, ?L) # map (\<lambda>p. (Killpg p, ?L)) (pre @ [p])"
      by (rule since_append)
    then have ev: "map fst (since w w') = PrintKilling # map Killpg (pre @ [p])"
      by (simp add: comp_def)
    from assms(1) split have apart: "\<forall>q\<in>set post. q \<notin> set pre \<and> q \<noteq> p"
      by (auto simp: iteration_order_def)
    have "\<forall>q\<in>set post. Killpg q \<notin> set (map fst (since w w'))"
    proof
      fix q assume "q \<in> set post"
      with apart have "q \<notin> set pre" "q \<noteq> p" by auto
      then show "Killpg q \<notin> set (map fst (since w w'))"
        by (subst ev) auto
    qed
    with r ev show ?thesis by simp
  qed
  note again = cleanup_again [OF assms(2)]
  show ?thesis
  proof (intro conjI allI impI)
    show "live_carla_processes w' = ?L" by (rule kept)
  next
    assume "\<forall>p\<in>?L. killpg p = None"
    then show "r = Inr ()" using all_ok by simp
  next
    assume "\<forall>p\<in>?L. killpg p = None"
    then show "map fst (since w w') = PrintKilling # map Killpg order" using all_ok by simp
  next
    fix pre p post ex
    assume h: "order = pre @ p # post \<and> (\<forall>q\<in>set pre. killpg q = None) \<and> killpg p = Some ex"
    then show "r = Inl ex" using abort [of pre p post ex] by simp
  next
    fix pre p post ex
    assume h: "order = pre @ p # post \<and> (\<forall>q\<in>set pre. killpg q = None) \<and> killpg p = Some ex"
    then show "map fst (since w w') = PrintKilling # map Killpg (pre @ [p])"
      using abort [of pre p post ex] by simp
  next
    fix pre p post ex
    assume h: "order = pre @ p # post \<and> (\<forall>q\<in>set pre. killpg q = None) \<and> killpg p = Some ex"
    then have "order = pre @ p # post" "\<forall>q\<in>set pre. killpg q = None" "killpg p = Some ex"
      by simp_all
    from abort [OF this]
    show "\<forall>q\<in>set post. Killpg q \<notin> set (map fst (since w w'))" by (rule conjunct2 [THEN conjunct2])
  next
    show "\<exists>w''. cleanup killpg order w' = (r, w'') \<and> since w' w'' = since w w'"
      by (rule again)
  qed
qed

theorem cleanup_signals_in_order_witness:
  "iteration_order [5, 7] example_registry
   \<and> fst (cleanup group5_gone [5, 7] example_registry) = Inl ProcessLookupError
   \<and> Killpg 7 \<notin> set (map fst (since example_registry
         (snd (cleanup group5_gone [5, 7] example_registry))))
   \<and> live_carla_processes (snd (cleanup group5_gone [5, 7] example_registry)) = {5, 7}"
proof -
  have ord: "iteration_order [5, 7] example_registry"
    by (simp add: iteration_order_def example_registry_def)
  have reg: "live_carla_processes example_registry = {5, 7}"
    by (simp add: example_registry_def)
  obtain r w' where run: "cleanup group5_gone [5, 7] example_registry = (r, w')"
    by (cases "cleanup group5_gone [5, 7] example_registry") auto
  note facts = cleanup_signals_in_order [OF ord run]
  from facts have kept: "live_carla_processes w' = live_carla_processes example_registry"
    by (rule conjunct1)
  from facts have abort: "\<forall>pre p post ex.
      [5, 7] = pre @ p # post \<and> (\<forall>q\<in>set pre. group5_gone q = None)
        \<and> group5_gone p = Some ex \<longrightarrow>
        r = Inl ex
      \<and> map fst (since example_registry w') = PrintKilling # map Killpg (pre @ [p])
      \<and> (\<forall>q\<in>set post. Killpg q \<notin> set (map fst (since example_registry w')))"
    by (rule conjunct2 [THEN conjunct2, THEN conjunct1])
  have inst: "[5, 7] = [] @ 5 # [7::nat] \<and> (\<forall>q\<in>set ([]::nat list). group5_gone q = None)
        \<and> group5_gone 5 = Some ProcessLookupError"
    by (simp add: group5_gone_def)
  from abort [THEN spec, THEN spec, THEN spec, THEN spec, THEN mp, OF inst]
  have r: "r = Inl ProcessLookupError"
    and no7: "\<forall>q\<in>set [7]. Killpg q \<notin> set (map fst (since example_registry w'))"
    by simp_all
  from no7 have "Killpg 7 \<notin> set (map fst (since example_registry w'))" by simp
  with ord r kept reg show ?thesis by (simp add: run)
qed



lemma upt_split_at: "k < n \<Longrightarrow> [0..<n] = [0..<k] @ k # [Suc k..<n]"
  by (metis le_add2 le_add_same_cancel2 less_imp_add_positive upt_add_eq_append upt_conv_Cons)

text \<open>The loop of \<^verbatim>\<open>init_server\<close> when the bound is the integer \<open>n\<close>.\<close>

lemma init_server_loop:
  assumes "RETRIES_ON_ERROR m = Some (VInt n)"
    and "config e ''server_map'' = Some smap" and "open_devnull x = None"
    and "popen_result x = Inr pid" and "getpgid x pid = Inr pgid"
  shows "init_server m x e w = retry_loop x [0..<nat n]
      (e\<lparr>server_port := Some (randint 10000 60000 (rand_raw x)), server_process := Some pid\<rparr>)
      ((emit (Popen (launch_argv (SERVER_BINARY m) smap (randint 10000 60000 (rand_raw x)))
                Setsid DevNull)
          (emit (Print ''Initializing new Carla server...'') w))
        \<lparr>live_carla_processes := insert pgid (live_carla_processes w)\<rparr>)"
  using init_server_spawned [OF assms(2-5), of m w] assms(1)
  by (simp add: Let_def)

lemma since_after_spawn:
  assumes "trace w3 = trace w @ [(Print s, L), (Popen argv pre out, L)]"
    and "trace w' = trace w3 @ t"
  shows "attempts (since w w') = attempts t" and "sleeps (since w w') = sleeps t"
proof -
  from assms have "since w w' = [(Print s, L), (Popen argv pre out, L)] @ t"
    by (simp add: since_def)
  then show "attempts (since w w') = attempts t" and "sleeps (since w w') = sleeps t"
    by simp_all
qed



text \<open>The exact log of one attempt and of the loop.\<close>

lemma attempt_trace:
  assumes "attempt x i e w = (r, e1, w1)"
  shows "trace w1 = trace w @ attempt_log x (server_port e) (live_carla_processes w) i"
  using assms
  by (auto simp: attempt_def attempt_log_def Let_def split: sum.splits)

lemma retry_loop_all_caught_log:
  assumes "\<forall>i\<in>set idxs. caught x i"
  shows "\<exists>e' w'. retry_loop x idxs e w = (Inr None, e', w')
           \<and> trace w' = trace w
                @ concat (map (caught_log x (server_port e) (live_carla_processes w)) idxs)"
  using assms
proof (induction idxs arbitrary: e w)
  case Nil
  then show ?case by simp
next
  case (Cons i rest)
  let ?L = "live_carla_processes w"
  obtain r1 e1 w1 where a: "attempt x i e w = (r1, e1, w1)"
    by (cases "attempt x i e w") auto
  note eff = attempt_effect [OF a]
  note tr = attempt_trace [OF a]
  from Cons.prems have "caught x i" by simp
  with eff(6) obtain ex where ex: "r1 = Inl ex" "is_Exception ex" "attempt_outcome x i = Inl ex"
    by (auto simp: caught_def split: sum.splits)
  let ?w2 = "emit (Sleep 2) (emit (PrintErrorConnecting ex i) w1)"
  have w2: "trace ?w2 = trace w @ caught_log x (server_port e) ?L i"
    using tr eff(1) ex(3) by (simp add: caught_log_def)
  have same: "server_port e1 = server_port e" "live_carla_processes ?w2 = ?L"
    using eff(1,2) by simp_all
  from Cons.prems have "\<forall>i\<in>set rest. caught x i" by simp
  from Cons.IH [OF this, of e1 ?w2] obtain e' w' where rest:
    "retry_loop x rest e1 ?w2 = (Inr None, e', w')"
    "trace w' = trace ?w2
       @ concat (map (caught_log x (server_port e1) (live_carla_processes ?w2)) rest)"
    by blast
  have "retry_loop x (i # rest) e w = (Inr None, e', w')" using a ex rest(1) by simp
  moreover have "trace w' = trace w
      @ concat (map (caught_log x (server_port e) ?L) (i # rest))"
    using rest(2) w2 same by simp
  ultimately show ?case by blast
qed

lemma retry_loop_stops_log:
  assumes "\<forall>i\<in>set pre. caught x i" and "\<not> caught x k"
  shows "\<exists>r e' w'. retry_loop x (pre @ k # post) e w = (r, e', w')
           \<and> trace w' = trace w
                @ concat (map (caught_log x (server_port e) (live_carla_processes w)) pre)
                @ attempt_log x (server_port e) (live_carla_processes w) k"
  using assms
proof (induction pre arbitrary: e w)
  case Nil
  obtain r1 e1 w1 where a: "attempt x k e w = (r1, e1, w1)"
    by (cases "attempt x k e w") auto
  note eff = attempt_effect [OF a]
  note tr = attempt_trace [OF a]
  from Nil.prems eff(6) a tr show ?case
    by (auto simp: caught_def split: sum.splits)
next
  case (Cons i rest)
  let ?L = "live_carla_processes w"
  obtain r1 e1 w1 where a: "attempt x i e w = (r1, e1, w1)"
    by (cases "attempt x i e w") auto
  note eff = attempt_effect [OF a]
  note tr = attempt_trace [OF a]
  from Cons.prems have "caught x i" by simp
  with eff(6) obtain ex where ex: "r1 = Inl ex" "is_Exception ex" "attempt_outcome x i = Inl ex"
    by (auto simp: caught_def split: sum.splits)
  let ?w2 = "emit (Sleep 2) (emit (PrintErrorConnecting ex i) w1)"
  have w2: "trace ?w2 = trace w @ caught_log x (server_port e) ?L i"
    using tr eff(1) ex(3) by (simp add: caught_log_def)
  have same: "server_port e1 = server_port e" "live_carla_processes ?w2 = ?L"
    using eff(1,2) by simp_all
  from Cons.prems have "\<forall>i\<in>set rest. caught x i" "\<not> caught x k" by simp_all
  from Cons.IH [OF this, of e1 ?w2] obtain r e' w' where rest:
    "retry_loop x (rest @ k # post) e1 ?w2 = (r, e', w')"
    "trace w' = trace ?w2
       @ concat (map (caught_log x (server_port e1) (live_carla_processes ?w2)) rest)
       @ attempt_log x (server_port e1) (live_carla_processes ?w2) k"
    by blast
  have "retry_loop x ((i # rest) @ k # post) e w = (r, e', w')" using a ex rest(1) by simp
  moreover have "trace w' = trace w
      @ concat (map (caught_log x (server_port e) ?L) (i # rest))
      @ attempt_log x (server_port e) ?L k"
    using rest(2) w2 same by simp
  ultimately show ?case by blast
qed


section \<open>The retry loop\<close>

text \<open>
  Claim C3 says that, when every attempt has failed, the loop surfaces the last
  exception or an explicit failure, and no undefined return value.  The code falls out
  of the \<^verbatim>\<open>for\<close> loop and the function ends, so the call returns \<^verbatim>\<open>None\<close> and raises
  nothing: with \<^verbatim>\<open>RETRIES_ON_ERROR\<close> bound to 2 and a client whose \<^verbatim>\<open>connect\<close> is refused
  every time, \<^verbatim>\<open>init_server\<close> returns \<^verbatim>\<open>None\<close>.
\<close>

theorem retries_exhausted_counterexample:
  "fst (init_server (example_module_retries 2) refusing_ext example_env example_world) = Inr None"
proof -
  have idx: "[0..<nat 2] = [0, 1]" by (simp add: upt_conv_Cons)
  have spawn: "open_devnull refusing_ext = None" "popen_result refusing_ext = Inr 4242"
    "getpgid refusing_ext 4242 = Inr 4242"
    by (simp_all add: refusing_ext_def example_ext_def)
  have "init_server (example_module_retries 2) refusing_ext example_env example_world
      = retry_loop refusing_ext [0, 1]
        (example_env\<lparr>server_port := Some (randint 10000 60000 (rand_raw refusing_ext)),
                      server_process := Some 4242\<rparr>)
        ((emit (Popen (launch_argv ''/opt/carla/CarlaUE4.sh'' (VStr ''/Game/Maps/Town02'')
                  (randint 10000 60000 (rand_raw refusing_ext))) Setsid DevNull)
            (emit (Print ''Initializing new Carla server...'') example_world))
          \<lparr>live_carla_processes := insert 4242 (live_carla_processes example_world)\<rparr>)"
    using idx
    by (simp add: init_server_spawned [OF example_env_config spawn]
        example_module_retries_def example_module_def Let_def)
  moreover have "fst (retry_loop refusing_ext [0, 1] e w) = Inr None"
    for e :: "(string, nat) carla_env" and w
    by (simp add: attempt_def refusing_ext_def example_ext_def Let_def)
  ultimately show ?thesis by simp
qed


text \<open>
  Claim C3 as amended.  Take a call of \<^verbatim>\<open>init_server\<close> with \<^verbatim>\<open>RETRIES_ON_ERROR\<close> bound to the
  integer \<open>n\<close>, in which the spawn and the registration go through.  The call constructs
  a client at most \<open>n\<close> times.  An attempt constructs a client for the stored port and,
  when the constructor returned, calls its \<^verbatim>\<open>connect\<close>; an attempt that raised an exception
  that \<^verbatim>\<open>except Exception\<close> catches is followed by the message with that exception and the
  index of the attempt and then by a sleep of 2 seconds, before anything else happens.
  If every attempt is caught, the call makes exactly \<open>n\<close> attempts, each followed by its
  message and its sleep, logs nothing else after the spawn, and returns \<^verbatim>\<open>None\<close>.  If the
  attempt with index \<open>k\<close> is the first that is not caught, the call has made \<open>k + 1\<close>
  attempts and slept \<open>k\<close> times, the \<open>k\<close> caught attempts each with message and sleep and
  the last one with neither: when that attempt succeeded, the call returns what
  \<^verbatim>\<open>connect\<close> returned and \<^verbatim>\<open>self.client\<close> is the client of that attempt; when it raised an
  exception that is no \<^verbatim>\<open>Exception\<close>, the call ends with it.
\<close>

theorem retry_loop_bounded:
  assumes "init_server m x e w = (r, e', w')"
    and "RETRIES_ON_ERROR m = Some (VInt n)"
    and "config e ''server_map'' = Some smap" and "open_devnull x = None"
    and "popen_result x = Inr pid" and "getpgid x pid = Inr pgid"
  shows "attempts (since w w') \<le> nat n
    \<and> ((\<forall>i<nat n. caught x i) \<longrightarrow>
          r = Inr None \<and> attempts (since w w') = nat n \<and> sleeps (since w w') = nat n
        \<and> since w w' =
            (Print ''Initializing new Carla server...'', live_carla_processes w)
            # (Popen (launch_argv (SERVER_BINARY m) smap (randint 10000 60000 (rand_raw x)))
                 Setsid DevNull, live_carla_processes w)
            # concat (map (caught_log x (Some (randint 10000 60000 (rand_raw x)))
                             (insert pgid (live_carla_processes w))) [0..<nat n]))
    \<and> (\<forall>k<nat n. (\<forall>i<k. caught x i) \<and> \<not> caught x k \<longrightarrow>
          attempts (since w w') = k + 1 \<and> sleeps (since w w') = k
        \<and> (case attempt_outcome x k of
              Inl ex \<Rightarrow> r = Inl ex
            | Inr (c, v) \<Rightarrow> r = Inr (Some v) \<and> client e' = Some c)
        \<and> since w w' =
            (Print ''Initializing new Carla server...'', live_carla_processes w)
            # (Popen (launch_argv (SERVER_BINARY m) smap (randint 10000 60000 (rand_raw x)))
                 Setsid DevNull, live_carla_processes w)
            # concat (map (caught_log x (Some (randint 10000 60000 (rand_raw x)))
                             (insert pgid (live_carla_processes w))) [0..<k])
            @ attempt_log x (Some (randint 10000 60000 (rand_raw x)))
                (insert pgid (live_carla_processes w)) k)"
proof -
  let ?L = "live_carla_processes w"
  let ?port = "randint 10000 60000 (rand_raw x)"
  let ?argv = "launch_argv (SERVER_BINARY m) smap ?port"
  let ?e2 = "e\<lparr>server_port := Some ?port, server_process := Some pid\<rparr>"
  let ?w3 = "(emit (Popen ?argv Setsid DevNull)
                (emit (Print ''Initializing new Carla server...'') w))
              \<lparr>live_carla_processes := insert pgid ?L\<rparr>"
  let ?head = "[(Print ''Initializing new Carla server...'', ?L),
                (Popen ?argv Setsid DevNull, ?L)]"
  let ?pass = "caught_log x (Some ?port) (insert pgid ?L)"
  have loop: "retry_loop x [0..<nat n] ?e2 ?w3 = (r, e', w')"
    using init_server_loop [OF assms(2-6), of w] assms(1) by simp
  have w3: "trace ?w3 = trace w @ ?head"
    by simp
  have at_loop: "server_port ?e2 = Some ?port" "live_carla_processes ?w3 = insert pgid ?L"
    by simp_all
  have bound: "attempts (since w w') \<le> nat n"
  proof -
    from retry_loop_frame [OF loop] obtain t where
      "trace w' = trace ?w3 @ t" "attempts t \<le> length [0..<nat n]"
      by blast
    with since_after_spawn(1) [OF w3] show ?thesis by simp
  qed
  have exhausted: "r = Inr None \<and> attempts (since w w') = nat n \<and> sleeps (since w w') = nat n"
    if "\<forall>i<nat n. caught x i"
  proof -
    from that have "\<forall>i\<in>set [0..<nat n]. caught x i" by simp
    from retry_loop_all_caught [OF this, of ?e2 ?w3] loop obtain t where
      "r = Inr None" "trace w' = trace ?w3 @ t"
      "attempts t = length [0..<nat n]" "sleeps t = length [0..<nat n]"
      by auto
    with since_after_spawn [OF w3] show ?thesis by simp
  qed
  have exhausted_log: "since w w' = ?head @ concat (map ?pass [0..<nat n])"
    if "\<forall>i<nat n. caught x i"
  proof -
    from that have "\<forall>i\<in>set [0..<nat n]. caught x i" by simp
    from retry_loop_all_caught_log [OF this, of ?e2 ?w3] loop
    have "trace w' = trace ?w3
        @ concat (map (caught_log x (server_port ?e2) (live_carla_processes ?w3)) [0..<nat n])"
      by auto
    then have "trace w' = trace w @ ?head @ concat (map ?pass [0..<nat n])"
      by (simp only: at_loop w3 append_assoc)
    then show ?thesis by (rule since_append)
  qed
  have stops: "attempts (since w w') = k + 1 \<and> sleeps (since w w') = k
        \<and> (case attempt_outcome x k of
              Inl ex \<Rightarrow> r = Inl ex
            | Inr (c, v) \<Rightarrow> r = Inr (Some v) \<and> client e' = Some c)"
    if "k < nat n" "\<forall>i<k. caught x i" "\<not> caught x k" for k
  proof -
    from that(2) have pre: "\<forall>i\<in>set [0..<k]. caught x i" by simp
    from retry_loop_stops [OF pre that(3), of "[Suc k..<nat n]" ?e2 ?w3]
      loop upt_split_at [OF that(1)]
    obtain t where t:
      "r = (case attempt_outcome x k of Inl ex \<Rightarrow> Inl ex | Inr (c, v) \<Rightarrow> Inr (Some v))"
      "case attempt_outcome x k of Inl ex \<Rightarrow> True | Inr (c, v) \<Rightarrow> client e' = Some c"
      "trace w' = trace ?w3 @ t" "attempts t = length [0..<k] + 1" "sleeps t = length [0..<k]"
      by auto
    from t(1,2) have "case attempt_outcome x k of
              Inl ex \<Rightarrow> r = Inl ex
            | Inr (c, v) \<Rightarrow> r = Inr (Some v) \<and> client e' = Some c"
      by (auto split: sum.splits)
    with since_after_spawn [OF w3 t(3)] t(4,5) show ?thesis by simp
  qed
  have stops_log: "since w w' = ?head @ concat (map ?pass [0..<k])
        @ attempt_log x (Some ?port) (insert pgid ?L) k"
    if "k < nat n" "\<forall>i<k. caught x i" "\<not> caught x k" for k
  proof -
    from that(2) have pre: "\<forall>i\<in>set [0..<k]. caught x i" by simp
    from retry_loop_stops_log [OF pre that(3), of "[Suc k..<nat n]" ?e2 ?w3]
      loop upt_split_at [OF that(1)]
    have "trace w' = trace ?w3
        @ concat (map (caught_log x (server_port ?e2) (live_carla_processes ?w3)) [0..<k])
        @ attempt_log x (server_port ?e2) (live_carla_processes ?w3) k"
      by auto
    then have "trace w' = trace w @ ?head @ concat (map ?pass [0..<k])
        @ attempt_log x (Some ?port) (insert pgid ?L) k"
      by (simp only: at_loop w3 append_assoc)
    then show ?thesis by (rule since_append)
  qed
  show ?thesis
  proof (intro conjI allI impI)
    show "attempts (since w w') \<le> nat n" by (rule bound)
  next
    assume "\<forall>i<nat n. caught x i"
    from exhausted [OF this] show "r = Inr None" by (rule conjunct1)
  next
    assume "\<forall>i<nat n. caught x i"
    from exhausted [OF this] show "attempts (since w w') = nat n"
      by (rule conjunct2 [THEN conjunct1])
  next
    assume "\<forall>i<nat n. caught x i"
    from exhausted [OF this] show "sleeps (since w w') = nat n"
      by (rule conjunct2 [THEN conjunct2])
  next
    assume "\<forall>i<nat n. caught x i"
    from exhausted_log [OF this]
    show "since w w' =
            (Print ''Initializing new Carla server...'', ?L)
            # (Popen ?argv Setsid DevNull, ?L)
            # concat (map ?pass [0..<nat n])"
      by simp
  next
    fix k assume "k < nat n" and "(\<forall>i<k. caught x i) \<and> \<not> caught x k"
    then have "k < nat n" "\<forall>i<k. caught x i" "\<not> caught x k" by simp_all
    from stops [OF this] show "attempts (since w w') = k + 1" by (rule conjunct1)
  next
    fix k assume "k < nat n" and "(\<forall>i<k. caught x i) \<and> \<not> caught x k"
    then have "k < nat n" "\<forall>i<k. caught x i" "\<not> caught x k" by simp_all
    from stops [OF this] show "sleeps (since w w') = k"
      by (rule conjunct2 [THEN conjunct1])
  next
    fix k assume "k < nat n" and "(\<forall>i<k. caught x i) \<and> \<not> caught x k"
    then have "k < nat n" "\<forall>i<k. caught x i" "\<not> caught x k" by simp_all
    from stops [OF this] show "case attempt_outcome x k of
              Inl ex \<Rightarrow> r = Inl ex
            | Inr (c, v) \<Rightarrow> r = Inr (Some v) \<and> client e' = Some c"
      by (rule conjunct2 [THEN conjunct2])
  next
    fix k assume "k < nat n" and "(\<forall>i<k. caught x i) \<and> \<not> caught x k"
    then have "k < nat n" "\<forall>i<k. caught x i" "\<not> caught x k" by simp_all
    from stops_log [OF this]
    show "since w w' =
            (Print ''Initializing new Carla server...'', ?L)
            # (Popen ?argv Setsid DevNull, ?L)
            # concat (map ?pass [0..<k])
            @ attempt_log x (Some ?port) (insert pgid ?L) k"
      by simp
  qed
qed


theorem retry_loop_bounded_witness:
  "fst (init_server (example_module_retries 3) example_ext example_env example_world)
     = Inr (Some ''connected'')
   \<and> attempts (since example_world
        (snd (snd (init_server (example_module_retries 3) example_ext example_env example_world))))
       = 3
   \<and> sleeps (since example_world
        (snd (snd (init_server (example_module_retries 3) example_ext example_env example_world))))
       = 2
   \<and> since example_world
        (snd (snd (init_server (example_module_retries 3) example_ext example_env example_world)))
       = [(Print ''Initializing new Carla server...'', {}),
          (Popen [VStr ''/opt/carla/CarlaUE4.sh'', VStr ''/Game/Maps/Town02'',
                  VStr ''-windowed'', VStr ''-ResX=400'', VStr ''-ResY=300'',
                  VStr ''-carla-server'', VStr ''-carla-world-port=22345'']
             Setsid DevNull, {}),
          (NewClient ''localhost'' (Some 22345), {4242}),
          (ClientConnect, {4242}),
          (PrintErrorConnecting (OtherException ''refused'') 0, {4242}),
          (Sleep 2, {4242}),
          (NewClient ''localhost'' (Some 22345), {4242}),
          (ClientConnect, {4242}),
          (PrintErrorConnecting (OtherException ''refused'') 1, {4242}),
          (Sleep 2, {4242}),
          (NewClient ''localhost'' (Some 22345), {4242}),
          (ClientConnect, {4242})]"
proof -
  let ?m = "example_module_retries 3"
  let ?run = "init_server ?m example_ext example_env example_world"
  let ?port = "randint 10000 60000 (rand_raw example_ext)"
  let ?L = "live_carla_processes example_world"
  obtain r e' w' where run: "?run = (r, e', w')"
    by (cases ?run) auto
  have bound: "RETRIES_ON_ERROR ?m = Some (VInt 3)"
    by (simp add: example_module_retries_def)
  have k: "(2::nat) < nat 3" by simp
  have pre: "(\<forall>i<2. caught example_ext i) \<and> \<not> caught example_ext 2"
    by (simp add: caught_def attempt_outcome_def example_ext_def)
  have outcome: "attempt_outcome example_ext 2 = Inr (2, ''connected'')"
    by (simp add: attempt_outcome_def example_ext_def)
  from retry_loop_bounded [OF run bound example_env_config
      example_ext_spawn(1) example_ext_spawn(2) example_ext_spawn(3)]
  have stops: "\<forall>k<nat 3. (\<forall>i<k. caught example_ext i) \<and> \<not> caught example_ext k \<longrightarrow>
          attempts (since example_world w') = k + 1 \<and> sleeps (since example_world w') = k
        \<and> (case attempt_outcome example_ext k of
              Inl ex \<Rightarrow> r = Inl ex
            | Inr (c, v) \<Rightarrow> r = Inr (Some v) \<and> client e' = Some c)
        \<and> since example_world w' =
            (Print ''Initializing new Carla server...'', ?L)
            # (Popen (launch_argv (SERVER_BINARY ?m) (VStr ''/Game/Maps/Town02'') ?port)
                 Setsid DevNull, ?L)
            # concat (map (caught_log example_ext (Some ?port) (insert 4242 ?L)) [0..<k])
            @ attempt_log example_ext (Some ?port) (insert 4242 ?L) k"
    by (rule conjunct2 [THEN conjunct2])
  note at2 = stops [rule_format, OF k pre]
  from at2 have n_attempts: "attempts (since example_world w') = 2 + 1"
    by (rule conjunct1)
  from at2 have n_sleeps: "sleeps (since example_world w') = 2"
    by (rule conjunct2 [THEN conjunct1])
  from at2 have "case attempt_outcome example_ext 2 of
              Inl ex \<Rightarrow> r = Inl ex
            | Inr (c, v) \<Rightarrow> r = Inr (Some v) \<and> client e' = Some c"
    by (rule conjunct2 [THEN conjunct2, THEN conjunct1])
  with outcome have result: "r = Inr (Some ''connected'')" by simp
  from at2 have log: "since example_world w' =
            (Print ''Initializing new Carla server...'', ?L)
            # (Popen (launch_argv (SERVER_BINARY ?m) (VStr ''/Game/Maps/Town02'') ?port)
                 Setsid DevNull, ?L)
            # concat (map (caught_log example_ext (Some ?port) (insert 4242 ?L)) [0..<2])
            @ attempt_log example_ext (Some ?port) (insert 4242 ?L) 2"
    by (rule conjunct2 [THEN conjunct2, THEN conjunct2])
  have port: "?port = 22345"
    by (simp add: example_ext_spawn(4) randint_def)
  have argv: "launch_argv (SERVER_BINARY ?m) (VStr ''/Game/Maps/Town02'') 22345 =
      [VStr ''/opt/carla/CarlaUE4.sh'', VStr ''/Game/Maps/Town02'',
       VStr ''-windowed'', VStr ''-ResX=400'', VStr ''-ResY=300'',
       VStr ''-carla-server'', VStr ''-carla-world-port=22345'']"
    by (simp add: launch_argv_def example_module_retries_def example_module_def
        str_int_def nat_digits.simps)
  have L: "?L = {}"
    by (simp add: example_world_def fresh_world_def)
  have idx: "[0..<2] = [0, Suc 0]" by (simp add: upt_conv_Cons)
  have passes: "concat (map (caught_log example_ext (Some 22345) {4242}) [0, Suc 0])
        @ attempt_log example_ext (Some 22345) {4242} 2 =
       [(NewClient ''localhost'' (Some 22345), {4242}),
        (ClientConnect, {4242}),
        (PrintErrorConnecting (OtherException ''refused'') 0, {4242}),
        (Sleep 2, {4242}),
        (NewClient ''localhost'' (Some 22345), {4242}),
        (ClientConnect, {4242}),
        (PrintErrorConnecting (OtherException ''refused'') 1, {4242}),
        (Sleep 2, {4242}),
        (NewClient ''localhost'' (Some 22345), {4242}),
        (ClientConnect, {4242})]"
    by (simp add: caught_log_def attempt_log_def attempt_outcome_def example_ext_def)
  from log have "since example_world w' =
       (Print ''Initializing new Carla server...'', {})
       # (Popen [VStr ''/opt/carla/CarlaUE4.sh'', VStr ''/Game/Maps/Town02'',
                 VStr ''-windowed'', VStr ''-ResX=400'', VStr ''-ResY=300'',
                 VStr ''-carla-server'', VStr ''-carla-world-port=22345'']
            Setsid DevNull, {})
       # (concat (map (caught_log example_ext (Some 22345) {4242}) [0, Suc 0])
          @ attempt_log example_ext (Some 22345) {4242} 2)"
    by (simp only: port argv L idx)
  with passes n_attempts n_sleeps result show ?thesis
    by (simp add: run)
qed


end
